theory Spec2Isabelle
  imports Complex_Main "HOL-Library.Sublist"
begin

section \<open>FHIR CapabilityStatement viewer: the loading pipeline of app.js\<close>

text \<open>
  The development embeds the class \<open>FHIRCapabilityViewer\<close> of \<open>app.js\<close>: the method
  \<open>loadCapabilityStatement\<close> with its two fetch stages, the validity checks, the error
  handler, and the address-parameter path (\<open>checkUrlParameters\<close>, \<open>generatePermalink\<close>).

  A JavaScript string is modelled as a \<open>string\<close> holding the bytes of its UTF-8 form, so
  an ASCII character is one \<open>char\<close> and the text is well-formed Unicode (no lone
  surrogates). The built-in functions of the browser that the source calls on strings
  are written out below on that representation, each after its standard
  (ECMA-262 for \<open>trim\<close>, \<open>includes\<close>, \<open>encodeURIComponent\<close>, \<open>decodeURIComponent\<close>;
  the WHATWG URL standard for \<open>URLSearchParams\<close>). What the browser decides from outside
  the program (whether \<open>new URL\<close> accepts a string, which texts are JSON and what they
  denote, what the network answers, whether the rendering methods throw) is a
  parameter; how \<open>JSON.parse\<close> makes an object of the members of a text is written out.
\<close>

subsection \<open>Built-in string functions\<close>

definition str_includes :: "string \<Rightarrow> string \<Rightarrow> bool" where
  \<comment> \<open>\<open>s.includes(t)\<close>: \<open>t\<close> occurs in \<open>s\<close> as a contiguous substring\<close>
  "str_includes s t = sublist t s"

definition WhiteSpace :: "string list" where
  \<comment> \<open>the code points \<open>trim\<close> strips (WhiteSpace and LineTerminator), in UTF-8:
      TAB, LF, VT, FF, CR, SP, U+00A0, U+1680, U+2000..U+200A, U+2028, U+2029, U+202F,
      U+205F, U+3000, U+FEFF\<close>
  "WhiteSpace =
     [[CHR 0x09], [CHR 0x0A], [CHR 0x0B], [CHR 0x0C], [CHR 0x0D], [CHR 0x20],
      [CHR 0xC2, CHR 0xA0], [CHR 0xE1, CHR 0x9A, CHR 0x80]] @
     map (\<lambda>b. [CHR 0xE2, CHR 0x80, char_of b]) [0x80 ..< (0x8B :: nat)] @
     [[CHR 0xE2, CHR 0x80, CHR 0xA8], [CHR 0xE2, CHR 0x80, CHR 0xA9],
      [CHR 0xE2, CHR 0x80, CHR 0xAF], [CHR 0xE2, CHR 0x81, CHR 0x9F],
      [CHR 0xE3, CHR 0x80, CHR 0x80], [CHR 0xEF, CHR 0xBB, CHR 0xBF]]"

function strip_leading :: "string list \<Rightarrow> string \<Rightarrow> string" where
  \<comment> \<open>drop from the front every occurrence of one of the sequences \<open>ws\<close>\<close>
  "strip_leading ws s =
     (case find (\<lambda>w. w \<noteq> [] \<and> prefix w s) ws of
        None \<Rightarrow> s
      | Some w \<Rightarrow> strip_leading ws (drop (length w) s))"
  by pat_completeness auto
termination
proof (relation "measure (\<lambda>(ws, s). length s)")
  show "wf (measure (\<lambda>(ws, s). length s))" by simp
next
  fix ws :: "string list" and s w :: string
  assume "find (\<lambda>w. w \<noteq> [] \<and> prefix w s) ws = Some w"
  then have "w \<noteq> []" and "prefix w s"
    by (auto simp: find_Some_iff)
  then have "s \<noteq> []" by auto
  with \<open>w \<noteq> []\<close> show "((ws, drop (length w) s), (ws, s)) \<in> measure (\<lambda>(ws, s). length s)"
    by simp
qed

declare strip_leading.simps [simp del]

definition trim :: "string \<Rightarrow> string" where
  \<comment> \<open>\<open>String.prototype.trim\<close>\<close>
  "trim s = rev (strip_leading (map rev WhiteSpace) (rev (strip_leading WhiteSpace s)))"

definition digits :: string where
  "digits = ''0123456789ABCDEF''"

function show_nat :: "nat \<Rightarrow> string" where
  \<comment> \<open>a non-negative integer in a template literal: its decimal digits\<close>
  "show_nat n = (if n < 10 then [digits ! n] else show_nat (n div 10) @ [digits ! (n mod 10)])"
  by pat_completeness auto
termination
  by (relation "measure id") auto

declare show_nat.simps [simp del]

subsection \<open>Percent-encoding\<close>

definition uriUnescaped :: "char \<Rightarrow> bool" where
  \<comment> \<open>the characters \<open>encodeURIComponent\<close> leaves alone: letters, digits and \<open>- _ . ! ~ * ' ( )\<close>\<close>
  "uriUnescaped c =
     (c \<in> set ''ABCDEFGHIJKLMNOPQRSTUVWXYZabcdefghijklmnopqrstuvwxyz0123456789-_.!~*()''
      \<or> c = CHR 0x27)"

definition escape_octet :: "char \<Rightarrow> string" where
  "escape_octet c =
     [CHR ''%'', digits ! (of_char c div (16 :: nat)), digits ! (of_char c mod (16 :: nat))]"

definition encodeURIComponent :: "string \<Rightarrow> string" where
  \<comment> \<open>every octet of the UTF-8 form that is not unescaped becomes \<open>%XX\<close>, upper-case hex\<close>
  "encodeURIComponent s = concat (map (\<lambda>c. if uriUnescaped c then [c] else escape_octet c) s)"

definition hex_value :: "char \<Rightarrow> nat option" where
  "hex_value c =
     (let n = (of_char c :: nat) in
      if 0x30 \<le> n \<and> n \<le> 0x39 then Some (n - 0x30)
      else if 0x41 \<le> n \<and> n \<le> 0x46 then Some (n - 0x37)
      else if 0x61 \<le> n \<and> n \<le> 0x66 then Some (n - 0x57)
      else None)"

definition ParseHexOctet :: "string \<Rightarrow> nat option" where
  \<comment> \<open>the octet written by the first two characters, if both are hex digits\<close>
  "ParseHexOctet s =
     (case s of
        a # b # _ \<Rightarrow>
          (case hex_value a of
             None \<Rightarrow> None
           | Some x \<Rightarrow> (case hex_value b of None \<Rightarrow> None | Some y \<Rightarrow> Some (16 * x + y)))
      | _ \<Rightarrow> None)"

definition leading_ones :: "nat \<Rightarrow> nat" where
  \<comment> \<open>the number of leading 1 bits of an octet (5 stands for "more than 4")\<close>
  "leading_ones b =
     (if b < 0x80 then 0 else if b < 0xC0 then 1 else if b < 0xE0 then 2
      else if b < 0xF0 then 3 else if b < 0xF8 then 4 else 5)"

definition continuation :: "nat \<Rightarrow> bool" where
  "continuation b = (0x80 \<le> b \<and> b \<le> 0xBF)"

definition valid_utf8 :: "nat list \<Rightarrow> bool" where
  \<comment> \<open>the octets are the UTF-8 encoding of one code point beyond ASCII\<close>
  "valid_utf8 bs =
     (case bs of
        [a, b] \<Rightarrow> 0xC2 \<le> a \<and> a \<le> 0xDF \<and> continuation b
      | [a, b, c] \<Rightarrow>
          ((a = 0xE0 \<and> 0xA0 \<le> b \<and> b \<le> 0xBF) \<or> (0xE1 \<le> a \<and> a \<le> 0xEC \<and> continuation b) \<or>
           (a = 0xED \<and> 0x80 \<le> b \<and> b \<le> 0x9F) \<or> (0xEE \<le> a \<and> a \<le> 0xEF \<and> continuation b))
          \<and> continuation c
      | [a, b, c, d] \<Rightarrow>
          ((a = 0xF0 \<and> 0x90 \<le> b \<and> b \<le> 0xBF) \<or> (0xF1 \<le> a \<and> a \<le> 0xF3 \<and> continuation b) \<or>
           (a = 0xF4 \<and> 0x80 \<le> b \<and> b \<le> 0x8F))
          \<and> continuation c \<and> continuation d
      | _ \<Rightarrow> False)"

fun continuation_octets :: "nat \<Rightarrow> string \<Rightarrow> nat list option" where
  \<comment> \<open>the octets of the next \<open>j\<close> escapes \<open>%XX\<close>, which must follow at once\<close>
  "continuation_octets 0 s = Some []"
| "continuation_octets (Suc j) [] = None"
| "continuation_octets (Suc j) (c # s) =
     (if c \<noteq> CHR ''%'' then None
      else case ParseHexOctet s of
             None \<Rightarrow> None
           | Some b \<Rightarrow> map_option ((#) b) (continuation_octets j (drop 2 s)))"

function decodeURIComponent :: "string \<Rightarrow> string option" where
  \<comment> \<open>\<open>None\<close> is the URIError the function throws on a malformed escape. An escape
      with the high bit set must start a run of escapes that spell one code point.\<close>
  "decodeURIComponent [] = Some []"
| "decodeURIComponent (c # s) =
     (if c \<noteq> CHR ''%'' then map_option ((#) c) (decodeURIComponent s)
      else case ParseHexOctet s of
             None \<Rightarrow> None
           | Some b \<Rightarrow>
               if leading_ones b = 0
               then map_option ((#) (char_of b)) (decodeURIComponent (drop 2 s))
               else if leading_ones b = 1 \<or> 4 < leading_ones b then None
               else (case continuation_octets (leading_ones b - 1) (drop 2 s) of
                       None \<Rightarrow> None
                     | Some bs \<Rightarrow>
                         if valid_utf8 (b # bs)
                         then map_option ((@) (map char_of (b # bs)))
                                (decodeURIComponent (drop (3 * (leading_ones b - 1)) (drop 2 s)))
                         else None))"
  by pat_completeness auto
termination
  by (relation "measure length") simp_all

subsection \<open>The query string of the page address\<close>

fun split_on :: "char \<Rightarrow> string \<Rightarrow> string list" where
  \<comment> \<open>strictly split on a delimiter\<close>
  "split_on d [] = [[]]"
| "split_on d (c # s) =
     (if c = d then [] # split_on d s
      else case split_on d s of x # xs \<Rightarrow> (c # x) # xs | [] \<Rightarrow> [[c]])"

fun percent_decode :: "string \<Rightarrow> string" where
  \<comment> \<open>the lenient percent-decode of the URL standard: a \<open>%\<close> not followed by two hex digits stays\<close>
  "percent_decode (c # a # b # s) =
     (if c = CHR ''%'' \<and> ParseHexOctet [a, b] \<noteq> None
      then char_of (the (ParseHexOctet [a, b])) # percent_decode s
      else c # percent_decode (a # b # s))"
| "percent_decode s = s"

definition name_value :: "string \<Rightarrow> string \<times> string" where
  \<comment> \<open>a sequence is split at its first \<open>=\<close>; without one the value is empty\<close>
  "name_value q =
     (if CHR ''='' \<in> set q
      then (takeWhile (\<lambda>c. c \<noteq> CHR ''='') q, tl (dropWhile (\<lambda>c. c \<noteq> CHR ''='') q))
      else (q, []))"

definition plus_to_space :: "string \<Rightarrow> string" where
  "plus_to_space = map (\<lambda>c. if c = CHR ''+'' then CHR 0x20 else c)"

definition URLSearchParams :: "string \<Rightarrow> (string \<times> string) list" where
  \<comment> \<open>\<open>new URLSearchParams(init)\<close>: a leading \<open>?\<close> is dropped, the rest is parsed as
      \<open>application/x-www-form-urlencoded\<close>. The decoded octets are taken to be well-formed
      UTF-8 (the browser would put U+FFFD for ill-formed ones).\<close>
  "URLSearchParams init =
     map (\<lambda>q. (percent_decode (plus_to_space (fst (name_value q))),
               percent_decode (plus_to_space (snd (name_value q)))))
       (filter (\<lambda>q. q \<noteq> [])
          (split_on CHR ''&'' (case init of c # r \<Rightarrow> if c = CHR ''?'' then r else init | [] \<Rightarrow> init)))"

definition get :: "(string \<times> string) list \<Rightarrow> string \<Rightarrow> string option" where
  \<comment> \<open>\<open>params.get(name)\<close>: the value of the first pair of that name, \<open>None\<close> for null\<close>
  "get params n = map_of params n"

definition location_search :: "string \<Rightarrow> string" where
  \<comment> \<open>\<open>window.location.search\<close> of a page address: the query with its \<open>?\<close>, up to the
      fragment; empty when the address has no query or an empty one\<close>
  "location_search address =
     (let q = dropWhile (\<lambda>c. c \<noteq> CHR ''?'') (takeWhile (\<lambda>c. c \<noteq> CHR ''#'') address)
      in if q = ''?'' then [] else q)"

subsection \<open>JSON values\<close>

datatype number = Finite rat | PlusInfinity | MinusInfinity

datatype json =
    JNull
  | JBool bool
  | JNumber number
  | JString string
  | JArray "json list"
  | JObject "(string \<times> json) list"

text \<open>
  A JSON value, read in two ways. As the value of a JavaScript expression it is what
  \<open>JSON.parse\<close> produced: an object lists its own properties in the order of enumeration,
  each name once. As the structure of a JSON text it is the value as written: an object
  lists the members of the text in their order, a name as often as it occurs.
  A number is the double the literal denotes: a rational, or an infinity for a literal
  beyond the range (NaN is never produced, and both zeros are \<open>Finite 0\<close>).
  \<open>None\<close> of type \<open>json option\<close> stands for \<open>undefined\<close>.
\<close>

definition array_index :: "string \<Rightarrow> int option" where
  \<comment> \<open>the number a property name stands for when it is an array index: a decimal numeral
      without leading zero, below \<open>2^32 - 1\<close>\<close>
  "array_index k =
     (if k = [] \<or> \<not> list_all (\<lambda>c. c \<in> set ''0123456789'') k \<or> (hd k = CHR ''0'' \<and> k \<noteq> ''0'')
      then None
      else let n = foldl (\<lambda>a c. 10 * a + (of_char c - 48)) (0 :: int) k
           in if n < 4294967295 then Some n else None)"

fun put :: "string \<Rightarrow> 'a \<Rightarrow> (string \<times> 'a) list \<Rightarrow> (string \<times> 'a) list" where
  \<comment> \<open>create the property, or give a property that exists its new value where it stands\<close>
  "put k v [] = [(k, v)]"
| "put k v ((k', v') # ps) = (if k = k' then (k, v) # ps else (k', v') # put k v ps)"

definition own_properties :: "(string \<times> 'a) list \<Rightarrow> (string \<times> 'a) list" where
  \<comment> \<open>the properties of the object made from the members of a text, as enumerated: the
      array indices in ascending order, then the other names in the order of creation\<close>
  "own_properties members =
     (let created = foldl (\<lambda>ps m. put (fst m) (snd m) ps) [] members
      in map snd
           (sort_key fst
              (List.map_filter (\<lambda>m. map_option (\<lambda>n. (n, m)) (array_index (fst m))) created)) @
         filter (\<lambda>m. array_index (fst m) = None) created)"

fun internalize :: "json \<Rightarrow> json" where
  \<comment> \<open>the JavaScript value of a JSON text with this structure\<close>
  "internalize (JArray xs) = JArray (map internalize xs)"
| "internalize (JObject members) =
     JObject (own_properties (map (\<lambda>m. (fst m, internalize (snd m))) members))"
| "internalize v = v"

fun written :: "json \<Rightarrow> json" where
  \<comment> \<open>the structure of the text \<open>JSON.stringify\<close> writes for a value: the properties of an
      object in the order of enumeration, \<open>null\<close> for a number that is not finite\<close>
  "written (JNumber n) = (case n of Finite q \<Rightarrow> JNumber n | _ \<Rightarrow> JNull)"
| "written (JArray xs) = JArray (map written xs)"
| "written (JObject ps) = JObject (map (\<lambda>m. (fst m, written (snd m))) ps)"
| "written v = v"

fun truthy :: "json option \<Rightarrow> bool" where
  \<comment> \<open>what \<open>&&\<close> and \<open>!\<close> make of a value\<close>
  "truthy None = False"
| "truthy (Some JNull) = False"
| "truthy (Some (JBool b)) = b"
| "truthy (Some (JNumber n)) = (n \<noteq> Finite 0)"
| "truthy (Some (JString s)) = (s \<noteq> [])"
| "truthy (Some (JArray xs)) = True"
| "truthy (Some (JObject kvs)) = True"

fun property :: "json \<Rightarrow> string \<Rightarrow> json option" where
  \<comment> \<open>\<open>data.name\<close> for the two names the source reads, \<open>resourceType\<close> and \<open>fhirVersion\<close>:
      an object's own property; a string, number, boolean or array has neither\<close>
  "property (JObject kvs) k = map_of kvs k"
| "property d k = None"

definition isValidCapabilityStatement :: "json \<Rightarrow> bool" where
  \<comment> \<open>the truth value of \<open>data && data.resourceType === 'CapabilityStatement' && data.fhirVersion\<close>;
      the only caller negates it\<close>
  "isValidCapabilityStatement data =
     (truthy (Some data) \<and>
      property data ''resourceType'' = Some (JString ''CapabilityStatement'') \<and>
      truthy (property data ''fhirVersion''))"

subsection \<open>The browser\<close>

record request =
  target :: string
  request_method :: string
  mode :: "string option"
  headers :: "(string \<times> string) list"

datatype body = Unreadable string | Text string

record response =
  status :: nat
  statusText :: string
  body :: body

datatype fetch_result = Rejected string | Resolved response

text \<open>
  \<open>fetch\<close> either rejects with a TypeError (its message) or resolves with a response;
  reading the body of a response either fails (the message) or gives its text. Every
  awaited promise settles. \<open>JSON_read\<close> is the grammar of JSON: it gives the structure of a
  text as written, or the message of the SyntaxError. \<open>render\<close> stands for the seven \<open>render...\<close> methods run in a row on
  \<open>this.capabilityData\<close>: they rewrite the tab contents \<open>'v\<close> and may throw (the message).
\<close>

record 'v platform =
  URL_accepts :: "string \<Rightarrow> bool"
  JSON_read :: "string \<Rightarrow> string + json"
  fetch :: "request \<Rightarrow> fetch_result"
  render :: "json option \<Rightarrow> 'v \<Rightarrow> string option \<times> 'v"

definition JSON_parse :: "'v platform \<Rightarrow> string \<Rightarrow> string + json" where
  \<comment> \<open>\<open>JSON.parse(text)\<close>: the JavaScript value of the text, or the message of the SyntaxError\<close>
  "JSON_parse p text =
     (case JSON_read p text of Inl m \<Rightarrow> Inl m | Inr v \<Rightarrow> Inr (internalize v))"

definition ok :: "response \<Rightarrow> bool" where
  "ok r = (200 \<le> status r \<and> status r \<le> 299)"

subsection \<open>The viewer\<close>

record 'v viewer =
  capabilityData :: "json option"
  fhir_url :: string
  error_text :: string
  error_section :: bool
  loading_section :: bool
  load_button_disabled :: bool
  results_section :: bool
  views :: 'v
  network :: "request list"
  console :: "(string \<times> string) list"

text \<open>
  \<open>fhir_url\<close> is the value of the input field, the three \<open>..._section\<close> fields say whether
  the section is displayed, \<open>views\<close> is the content of the tabs. \<open>network\<close> lists the
  requests sent so far and \<open>console\<close> what was logged (a label and the message of the
  error logged with it).
\<close>

definition showLoading :: "'v viewer \<Rightarrow> 'v viewer" where
  "showLoading s = s\<lparr>loading_section := True, load_button_disabled := True\<rparr>"

definition hideLoading :: "'v viewer \<Rightarrow> 'v viewer" where
  "hideLoading s = s\<lparr>loading_section := False, load_button_disabled := False\<rparr>"

definition showError :: "string \<Rightarrow> 'v viewer \<Rightarrow> 'v viewer" where
  "showError message s = s\<lparr>error_text := message, error_section := True\<rparr>"

definition hideError :: "'v viewer \<Rightarrow> 'v viewer" where
  "hideError s = s\<lparr>error_section := False\<rparr>"

definition hideResults :: "'v viewer \<Rightarrow> 'v viewer" where
  "hideResults s = s\<lparr>results_section := False\<rparr>"

definition showResults :: "'v viewer \<Rightarrow> 'v viewer" where
  "showResults s = s\<lparr>results_section := True\<rparr>"

definition displayCapabilityStatement ::
  "'v platform \<Rightarrow> 'v viewer \<Rightarrow> (string + unit) \<times> 'v viewer" where
  \<comment> \<open>the render methods, then \<open>showResults\<close>; \<open>Inl\<close> is an error thrown on the way\<close>
  "displayCapabilityStatement p s =
     (case render p (capabilityData s) (views s) of
        (Some m, v) \<Rightarrow> (Inl m, s\<lparr>views := v\<rparr>)
      | (None, v) \<Rightarrow> (Inr (), showResults (s\<lparr>views := v\<rparr>)))"

definition isValidUrl :: "'v platform \<Rightarrow> string \<Rightarrow> bool" where
  \<comment> \<open>\<open>new URL(string)\<close> in a try: true unless it throws\<close>
  "isValidUrl p string = URL_accepts p string"

subsection \<open>The two fetch stages\<close>

datatype failure_kind =
  InvalidInput | NetworkFailure | HttpError | UnexpectedHtmlResponse | InvalidJson | SchemaMismatch

type_synonym error = "failure_kind \<times> string"

text \<open>
  An error thrown in the \<open>try\<close> block is its message, tagged with the kind of failure its
  throw site stands for: a rejected \<open>fetch\<close> or an unreadable body is \<open>NetworkFailure\<close>,
  the \<open>!response.ok\<close> throws are \<open>HttpError\<close>, the three remaining throws are
  \<open>UnexpectedHtmlResponse\<close>, \<open>InvalidJson\<close> and \<open>SchemaMismatch\<close>. The program itself only
  ever looks at the message.
\<close>

definition format_url :: "string \<Rightarrow> string" where
  \<comment> \<open>the template \<open>${url}${url.includes('?') ? '&' : '?'}_format=json\<close>\<close>
  "format_url url = url @ (if str_includes url ''?'' then ''&'' else ''?'') @ ''_format=json''"

definition direct_request :: "string \<Rightarrow> request" where
  "direct_request url =
     \<lparr>target = format_url url, request_method = ''GET'', mode = Some ''cors'',
      headers = [(''Accept'', ''application/fhir+json, application/json'')]\<rparr>"

definition proxyUrl :: string where
  "proxyUrl = ''https://api.allorigins.win/raw?url=''"

definition proxiedUrl :: "string \<Rightarrow> string" where
  "proxiedUrl url = proxyUrl @ encodeURIComponent (format_url url)"

definition proxy_request :: "string \<Rightarrow> request" where
  "proxy_request url =
     \<lparr>target = proxiedUrl url, request_method = ''GET'', mode = None,
      headers = [(''Accept'', ''application/json'')]\<rparr>"

record fetched =
  outcome :: "error + json"
  sent :: "request list"
  logged :: "(string \<times> string) list"

text \<open>
  What a stretch of the \<open>try\<close> block leaves behind: the value of \<open>data\<close> or the error that
  leaves the stretch, the requests that went out, and the lines written to the console.
\<close>

definition await_fetch :: "'v platform \<Rightarrow> request \<Rightarrow> fetch_result \<times> request list" where
  \<comment> \<open>\<open>await fetch(...)\<close>: the request goes out, and the answer of the browser comes back\<close>
  "await_fetch p r = (fetch p r, [r])"

definition response_json :: "'v platform \<Rightarrow> response \<Rightarrow> error + json" where
  \<comment> \<open>\<open>await response.json()\<close>: read the body, parse it\<close>
  "response_json p r =
     (case body r of
        Unreadable m \<Rightarrow> Inl (NetworkFailure, m)
      | Text t \<Rightarrow> (case JSON_parse p t of Inl m \<Rightarrow> Inl (InvalidJson, m) | Inr data \<Rightarrow> Inr data))"

definition direct_fetch :: "'v platform \<Rightarrow> string \<Rightarrow> fetched" where
  \<comment> \<open>the inner \<open>try\<close> block\<close>
  "direct_fetch p url =
     (case await_fetch p (direct_request url) of
        (answer, out) \<Rightarrow>
          \<lparr>outcome =
             (case answer of
                Rejected m \<Rightarrow> Inl (NetworkFailure, m)
              | Resolved r \<Rightarrow>
                  if \<not> ok r
                  then Inl (HttpError, ''HTTP '' @ show_nat (status r) @ '': '' @ statusText r)
                  else response_json p r),
           sent = out, logged = []\<rparr>)"

definition proxy_fetch :: "'v platform \<Rightarrow> string \<Rightarrow> fetched" where
  \<comment> \<open>the inner \<open>catch\<close> block\<close>
  "proxy_fetch p url =
     (case await_fetch p (proxy_request url) of
        (answer, out) \<Rightarrow>
          \<lparr>outcome =
             (case answer of
                Rejected m \<Rightarrow> Inl (NetworkFailure, m)
              | Resolved r \<Rightarrow>
                  if \<not> ok r
                  then Inl (HttpError,
                         ''Proxy request failed: HTTP '' @ show_nat (status r) @ '': '' @
                         statusText r)
                  else (case body r of
                          Unreadable m \<Rightarrow> Inl (NetworkFailure, m)
                        | Text responseText \<Rightarrow>
                            (case JSON_parse p responseText of
                               Inr data \<Rightarrow> Inr data
                             | Inl parseError \<Rightarrow>
                                 if str_includes responseText ''<html>'' \<or>
                                    str_includes responseText ''<!DOCTYPE''
                                 then Inl (UnexpectedHtmlResponse,
                                        ''The server returned an HTML page instead of JSON. This might indicate the URL is incorrect or the server is not responding properly.'')
                                 else Inl (InvalidJson, ''Invalid JSON response from server'')))),
           sent = out, logged = []\<rparr>)"

definition fetch_data :: "'v platform \<Rightarrow> string \<Rightarrow> fetched" where
  \<comment> \<open>the inner \<open>try\<close>/\<open>catch\<close>: an error of the direct stage is logged, and the stage of the
      \<open>catch\<close> block runs after it\<close>
  "fetch_data p url =
     (let direct = direct_fetch p url in
      case outcome direct of
        Inr data \<Rightarrow> direct
      | Inl corsError \<Rightarrow>
          (let proxied = proxy_fetch p url in
           \<lparr>outcome = outcome proxied,
            sent = sent direct @ sent proxied,
            logged = logged direct @
                     [(''Direct fetch failed, trying CORS proxy...'', snd corsError)] @
                     logged proxied\<rparr>))"

definition fetch_and_validate :: "'v platform \<Rightarrow> string \<Rightarrow> fetched" where
  \<comment> \<open>the \<open>try\<close> block up to the assignment of \<open>this.capabilityData\<close>\<close>
  "fetch_and_validate p url =
     (let f = fetch_data p url in
      case outcome f of
        Inl e \<Rightarrow> f
      | Inr data \<Rightarrow>
          if \<not> isValidCapabilityStatement data
          then f\<lparr>outcome :=
                   Inl (SchemaMismatch,
                     ''The response does not appear to be a valid FHIR CapabilityStatement'')\<rparr>
          else f)"

subsection \<open>The error handler\<close>

definition bullet :: string where
  \<comment> \<open>U+2022 in UTF-8\<close>
  "bullet = [CHR 0xE2, CHR 0x80, CHR 0xA2]"

definition network_error_text :: string where
  "network_error_text =
     ''Network error: Unable to fetch data from the FHIR server. This might be due to:\<newline>'' @
     ''                '' @ bullet @ '' CORS (Cross-Origin Resource Sharing) restrictions\<newline>'' @
     ''                '' @ bullet @ '' Network connectivity issues\<newline>'' @
     ''                '' @ bullet @ '' Invalid URL or server not responding\<newline>'' @
     ''                \<newline>'' @
     ''                Try:\<newline>'' @
     ''                '' @ bullet @ '' Checking if the URL is correct and accessible in a browser\<newline>'' @
     ''                '' @ bullet @ '' Using a different FHIR server that allows CORS\<newline>'' @
     ''                '' @ bullet @ '' Running this application from an HTTPS server instead of file://''"

definition proxy_failed_text :: string where
  "proxy_failed_text =
     ''Both direct connection and proxy failed. The FHIR server might be:\<newline>'' @
     ''                '' @ bullet @ '' Temporarily unavailable\<newline>'' @
     ''                '' @ bullet @ '' Requiring authentication\<newline>'' @
     ''                '' @ bullet @ '' Behind a firewall that blocks external access\<newline>'' @
     ''                \<newline>'' @
     ''                Please verify the URL is correct and try again later.''"

definition errorMessage :: "string \<Rightarrow> string" where
  \<comment> \<open>the text shown for an error with this message\<close>
  "errorMessage message =
     (if str_includes message ''Failed to fetch'' \<or> str_includes message ''NetworkError''
      then network_error_text
      else if str_includes message ''Proxy request failed'' then proxy_failed_text
      else message)"

definition catch_block :: "string \<Rightarrow> 'v viewer \<Rightarrow> (string + unit) \<times> 'v viewer" where
  "catch_block message s =
     (Inr (),
      showError (errorMessage message)
        (s\<lparr>console := console s @ [(''Error loading CapabilityStatement:'', message)]\<rparr>))"

definition try_catch_finally ::
  "('s \<Rightarrow> (string + unit) \<times> 's) \<Rightarrow> (string \<Rightarrow> 's \<Rightarrow> (string + unit) \<times> 's) \<Rightarrow> ('s \<Rightarrow> 's) \<Rightarrow>
   's \<Rightarrow> (string + unit) \<times> 's" where
  \<comment> \<open>\<open>try { block } catch (e) { handler } finally { final }\<close>: an error of the block goes to
      the handler, an error of the handler leaves the statement, \<open>final\<close> runs in any case\<close>
  "try_catch_finally block handler final s =
     (case block s of
        (Inr u, s') \<Rightarrow> (Inr u, final s')
      | (Inl e, s') \<Rightarrow> (case handler e s' of (r, s'') \<Rightarrow> (r, final s'')))"

subsection \<open>Loading\<close>

definition try_block :: "'v platform \<Rightarrow> string \<Rightarrow> 'v viewer \<Rightarrow> (string + unit) \<times> 'v viewer" where
  "try_block p url s =
     (let f = fetch_and_validate p url;
          s1 = s\<lparr>network := network s @ sent f, console := console s @ logged f\<rparr>
      in case outcome f of
           Inl e \<Rightarrow> (Inl (snd e), s1)
         | Inr data \<Rightarrow> displayCapabilityStatement p (s1\<lparr>capabilityData := Some data\<rparr>))"

definition loadCapabilityStatement :: "'v platform \<Rightarrow> 'v viewer \<Rightarrow> (string + unit) \<times> 'v viewer" where
  \<comment> \<open>the method, run to its end; \<open>Inl\<close> would be an error that leaves it\<close>
  "loadCapabilityStatement p s =
     (let url = trim (fhir_url s) in
      if url = [] then (Inr (), showError ''Please enter a valid FHIR CapabilityStatement URL'' s)
      else if \<not> isValidUrl p url then (Inr (), showError ''Please enter a valid URL format'' s)
      else try_catch_finally (try_block p url) catch_block hideLoading
             (hideResults (hideError (showLoading s))))"

datatype load_result = Success json | Failure failure_kind string

definition load :: "'v platform \<Rightarrow> string \<Rightarrow> load_result \<times> request list" where
  \<comment> \<open>what the method makes of the constant \<open>url\<close> (the trimmed value of the input field), as
      the result handed to the display and the requests sent: \<open>Success\<close> with the document
      it assigns to \<open>this.capabilityData\<close>, or \<open>Failure\<close> with the kind of the failure and
      the text it passes to \<open>showError\<close>\<close>
  "load p url =
     (if url = [] then (Failure InvalidInput ''Please enter a valid FHIR CapabilityStatement URL'', [])
      else if \<not> isValidUrl p url then (Failure InvalidInput ''Please enter a valid URL format'', [])
      else let f = fetch_and_validate p url
           in (case outcome f of
                 Inl e \<Rightarrow> Failure (fst e) (errorMessage (snd e))
               | Inr data \<Rightarrow> Success data,
               sent f))"

subsection \<open>Demo data, the address parameter, the permalink\<close>

definition sandboxUrl :: string where
  "sandboxUrl = ''https://fhirr4sandbox.webch.art/webchart.cgi/fhir/metadata''"

definition loadDemoData :: "'v platform \<Rightarrow> 'v viewer \<Rightarrow> (string + unit) \<times> 'v viewer" where
  "loadDemoData p s = loadCapabilityStatement p (s\<lparr>fhir_url := sandboxUrl\<rparr>)"

definition demoData :: json where
  "demoData =
     JObject
     [(''resourceType'', JString ''CapabilityStatement''),
      (''id'', JString ''demo''),
      (''url'', JString ''https://fhirr4sandbox.webch.art/webchart.cgi/fhir/metadata''),
      (''version'', JString ''4.0.1''),
      (''name'', JString ''Sandbox_FHIR_Capability_Statement''),
      (''status'', JString ''active''),
      (''experimental'', JBool False),
      (''date'', JString ''2025-10-15T20:10:00Z''),
      (''publisher'', JString ''WebChart FHIR R4 Sandbox''),
      (''contact'', JArray
         [JObject
           [(''name'', JString ''FHIR Support Team''),
            (''telecom'', JArray
               [JObject
                 [(''system'', JString ''url''),
                  (''value'', JString ''https://www.webchartnow.com/support'')],
                JObject
                 [(''system'', JString ''email''),
                  (''value'', JString ''fhir-support@webchartnow.com'')]])]]),
      (''description'', JString ''This is a demonstration CapabilityStatement from the WebChart FHIR R4 Sandbox showing typical FHIR server capabilities.''),
      (''kind'', JString ''instance''),
      (''software'', JObject
         [(''name'', JString ''WebChart FHIR R4 Sandbox''),
          (''version'', JString ''1.0.0'')]),
      (''fhirVersion'', JString ''4.0.1''),
      (''format'', JArray [JString ''application/fhir+json'', JString ''application/fhir+xml'']),
      (''rest'', JArray
         [JObject
           [(''mode'', JString ''server''),
            (''documentation'', JString ''Demo FHIR server with common resource support''),
            (''security'', JObject
               [(''cors'', JBool True),
                (''service'', JArray
                   [JObject
                     [(''coding'', JArray
                         [JObject
                           [(''system'', JString ''http://terminology.hl7.org/CodeSystem/restful-security-service''),
                            (''code'', JString ''SMART-on-FHIR''),
                            (''display'', JString ''SMART-on-FHIR'')]]),
                      (''text'', JString ''SMART-on-FHIR OAuth2'')]]),
                (''description'', JString ''OAuth2 using SMART-on-FHIR profile'')]),
            (''interaction'', JArray
               [JObject [(''code'', JString ''transaction'')],
                JObject [(''code'', JString ''batch'')],
                JObject [(''code'', JString ''search-system'')],
                JObject [(''code'', JString ''history-system'')]]),
            (''resource'', JArray
               [JObject
                 [(''type'', JString ''Patient''),
                  (''profile'', JString ''http://hl7.org/fhir/StructureDefinition/Patient''),
                  (''supportedProfile'', JArray [JString ''http://hl7.org/fhir/us/core/StructureDefinition/us-core-patient'']),
                  (''interaction'', JArray
                     [JObject
                       [(''code'', JString ''read''),
                        (''documentation'', JString ''Read patient by ID'')],
                      JObject
                       [(''code'', JString ''search-type''),
                        (''documentation'', JString ''Search for patients'')],
                      JObject
                       [(''code'', JString ''create''),
                        (''documentation'', JString ''Create new patient'')],
                      JObject
                       [(''code'', JString ''update''),
                        (''documentation'', JString ''Update existing patient'')]]),
                  (''versioning'', JString ''versioned''),
                  (''readHistory'', JBool True),
                  (''updateCreate'', JBool True),
                  (''conditionalCreate'', JBool True),
                  (''conditionalRead'', JString ''full-support''),
                  (''conditionalUpdate'', JBool True),
                  (''conditionalDelete'', JString ''single''),
                  (''referencePolicy'', JArray [JString ''literal'', JString ''logical'']),
                  (''searchParam'', JArray
                     [JObject
                       [(''name'', JString ''_id''),
                        (''definition'', JString ''http://hl7.org/fhir/SearchParameter/Resource-id''),
                        (''type'', JString ''token''),
                        (''documentation'', JString ''Logical id of this artifact'')],
                      JObject
                       [(''name'', JString ''identifier''),
                        (''definition'', JString ''http://hl7.org/fhir/SearchParameter/Patient-identifier''),
                        (''type'', JString ''token''),
                        (''documentation'', JString ''A patient identifier'')],
                      JObject
                       [(''name'', JString ''name''),
                        (''definition'', JString ''http://hl7.org/fhir/SearchParameter/Patient-name''),
                        (''type'', JString ''string''),
                        (''documentation'', JString (''A portion of the patient'' @ [CHR 0x27] @ ''s name''))],
                      JObject
                       [(''name'', JString ''family''),
                        (''definition'', JString ''http://hl7.org/fhir/SearchParameter/individual-family''),
                        (''type'', JString ''string''),
                        (''documentation'', JString ''A portion of the family name'')],
                      JObject
                       [(''name'', JString ''given''),
                        (''definition'', JString ''http://hl7.org/fhir/SearchParameter/individual-given''),
                        (''type'', JString ''string''),
                        (''documentation'', JString ''A portion of the given name'')],
                      JObject
                       [(''name'', JString ''birthdate''),
                        (''definition'', JString ''http://hl7.org/fhir/SearchParameter/individual-birthdate''),
                        (''type'', JString ''date''),
                        (''documentation'', JString (''The patient'' @ [CHR 0x27] @ ''s date of birth''))],
                      JObject
                       [(''name'', JString ''gender''),
                        (''definition'', JString ''http://hl7.org/fhir/SearchParameter/individual-gender''),
                        (''type'', JString ''token''),
                        (''documentation'', JString ''Gender of the patient'')]])],
                JObject
                 [(''type'', JString ''Observation''),
                  (''profile'', JString ''http://hl7.org/fhir/StructureDefinition/Observation''),
                  (''supportedProfile'', JArray
                     [JString ''http://hl7.org/fhir/us/core/StructureDefinition/us-core-observation-lab'']),
                  (''interaction'', JArray
                     [JObject
                       [(''code'', JString ''read''),
                        (''documentation'', JString ''Read observation by ID'')],
                      JObject
                       [(''code'', JString ''search-type''),
                        (''documentation'', JString ''Search for observations'')]]),
                  (''referencePolicy'', JArray [JString ''literal'']),
                  (''searchParam'', JArray
                     [JObject
                       [(''name'', JString ''_id''),
                        (''definition'', JString ''http://hl7.org/fhir/SearchParameter/Resource-id''),
                        (''type'', JString ''token''),
                        (''documentation'', JString ''Logical id of this artifact'')],
                      JObject
                       [(''name'', JString ''patient''),
                        (''definition'', JString ''http://hl7.org/fhir/SearchParameter/clinical-patient''),
                        (''type'', JString ''reference''),
                        (''documentation'', JString ''The patient this observation is about'')],
                      JObject
                       [(''name'', JString ''code''),
                        (''definition'', JString ''http://hl7.org/fhir/SearchParameter/clinical-code''),
                        (''type'', JString ''token''),
                        (''documentation'', JString ''The code of the observation type'')],
                      JObject
                       [(''name'', JString ''date''),
                        (''definition'', JString ''http://hl7.org/fhir/SearchParameter/clinical-date''),
                        (''type'', JString ''date''),
                        (''documentation'', JString ''Obtained date/time'')],
                      JObject
                       [(''name'', JString ''category''),
                        (''definition'', JString ''http://hl7.org/fhir/SearchParameter/Observation-category''),
                        (''type'', JString ''token''),
                        (''documentation'', JString ''The classification of the type of observation'')]])],
                JObject
                 [(''type'', JString ''Condition''),
                  (''profile'', JString ''http://hl7.org/fhir/StructureDefinition/Condition''),
                  (''interaction'', JArray
                     [JObject
                       [(''code'', JString ''read''),
                        (''documentation'', JString ''Read condition by ID'')],
                      JObject
                       [(''code'', JString ''search-type''),
                        (''documentation'', JString ''Search for conditions'')]]),
                  (''referencePolicy'', JArray [JString ''literal'']),
                  (''searchParam'', JArray
                     [JObject
                       [(''name'', JString ''_id''),
                        (''definition'', JString ''http://hl7.org/fhir/SearchParameter/Resource-id''),
                        (''type'', JString ''token''),
                        (''documentation'', JString ''Logical id of this artifact'')],
                      JObject
                       [(''name'', JString ''patient''),
                        (''definition'', JString ''http://hl7.org/fhir/SearchParameter/clinical-patient''),
                        (''type'', JString ''reference''),
                        (''documentation'', JString ''Who has the condition?'')],
                      JObject
                       [(''name'', JString ''code''),
                        (''definition'', JString ''http://hl7.org/fhir/SearchParameter/clinical-code''),
                        (''type'', JString ''token''),
                        (''documentation'', JString ''Code for the condition'')]])]]),
            (''operation'', JArray
               [JObject
                 [(''name'', JString ''validate''),
                  (''definition'', JString ''http://hl7.org/fhir/OperationDefinition/Resource-validate''),
                  (''documentation'', JString ''Validate a resource'')]])]])]"

definition loadStaticDemoData :: "'v platform \<Rightarrow> 'v viewer \<Rightarrow> (string + unit) \<times> 'v viewer" where
  "loadStaticDemoData p s =
     displayCapabilityStatement p ((hideLoading (hideError s))\<lparr>capabilityData := Some demoData\<rparr>)"

definition checkUrlParameters :: "'v platform \<Rightarrow> string \<Rightarrow> 'v viewer \<Rightarrow> (string + unit) \<times> 'v viewer" where
  \<comment> \<open>\<open>search\<close> is \<open>window.location.search\<close>; the URIError of \<open>decodeURIComponent\<close> is not caught\<close>
  "checkUrlParameters p search s =
     (case get (URLSearchParams search) ''url'' of
        None \<Rightarrow> (Inr (), s)
      | Some fhirUrl \<Rightarrow>
          if fhirUrl = [] then (Inr (), s)
          else (case decodeURIComponent fhirUrl of
                  None \<Rightarrow> (Inl ''URI malformed'', s)
                | Some decodedUrl \<Rightarrow> loadCapabilityStatement p (s\<lparr>fhir_url := decodedUrl\<rparr>)))"

definition constructor :: "'v platform \<Rightarrow> string \<Rightarrow> 'v viewer \<Rightarrow> (string + unit) \<times> 'v viewer" where
  \<comment> \<open>\<open>page\<close> is the document as loaded; the listeners registered in between change no field\<close>
  "constructor p search page = checkUrlParameters p search (page\<lparr>capabilityData := None\<rparr>)"

definition generatePermalink :: "string \<Rightarrow> 'v viewer \<Rightarrow> string option" where
  \<comment> \<open>\<open>baseUrl\<close> is \<open>window.location.origin + window.location.pathname\<close>; the result is the
      link copied to the clipboard, \<open>None\<close> when the method only alerts\<close>
  "generatePermalink baseUrl s =
     (let currentUrl = trim (fhir_url s) in
      if currentUrl = [] then None
      else Some (baseUrl @ ''?url='' @ encodeURIComponent currentUrl))"

subsection \<open>Runs of the viewer\<close>

inductive reachable :: "'v viewer \<Rightarrow> bool" where
  \<comment> \<open>the states of a viewer: constructed on a page, then the input edited, the load button
      or the enter key, the demo button, the static demo data\<close>
  start: "reachable (snd (constructor p search page))"
| edit: "reachable s \<Longrightarrow> reachable (s\<lparr>fhir_url := u\<rparr>)"
| load_button: "reachable s \<Longrightarrow> reachable (snd (loadCapabilityStatement p s))"
| demo_button: "reachable s \<Longrightarrow> reachable (snd (loadDemoData p s))"
| static_demo: "reachable s \<Longrightarrow> reachable (snd (loadStaticDemoData p s))"

definition stored_valid :: "'v viewer \<Rightarrow> bool" where
  \<comment> \<open>\<open>this.capabilityData\<close> is null or passes the validity check\<close>
  "stored_valid s = (case capabilityData s of None \<Rightarrow> True | Some d \<Rightarrow> isValidCapabilityStatement d)"

subsection \<open>The parts of a URL\<close>

definition query_of :: "string \<Rightarrow> string option" where
  \<comment> \<open>the query component of a URL (RFC 3986): what stands after the first \<open>?\<close> of the part
      before the fragment, which begins at the first \<open>#\<close>; \<open>None\<close> when there is no query\<close>
  "query_of u =
     (let h = takeWhile (\<lambda>c. c \<noteq> CHR ''#'') u
      in if CHR ''?'' \<in> set h then Some (tl (dropWhile (\<lambda>c. c \<noteq> CHR ''?'') h)) else None)"

definition fragment_of :: "string \<Rightarrow> string option" where
  "fragment_of u =
     (if CHR ''#'' \<in> set u then Some (tl (dropWhile (\<lambda>c. c \<noteq> CHR ''#'') u)) else None)"

subsection \<open>Notions of the specification\<close>

definition stage1_fails :: "'v platform \<Rightarrow> string \<Rightarrow> bool" where
  \<comment> \<open>stage 1 fails: the direct request fails at the transport level, or its status is
      not 2xx, or its body cannot be read or does not parse as JSON\<close>
  "stage1_fails p url =
     (case fetch p (direct_request url) of
        Rejected m \<Rightarrow> True
      | Resolved r \<Rightarrow>
          \<not> ok r \<or>
          (case body r of
             Unreadable m \<Rightarrow> True
           | Text t \<Rightarrow> (case JSON_parse p t of Inl m \<Rightarrow> True | Inr d \<Rightarrow> False)))"

definition falsy :: "json list" where
  \<comment> \<open>the JSON values that count as false\<close>
  "falsy = [JNull, JBool False, JNumber (Finite 0), JString []]"

definition passes_presence_checks :: "json \<Rightarrow> bool" where
  \<comment> \<open>an object whose \<open>resourceType\<close> is the literal and whose \<open>fhirVersion\<close> is present and
      not one of the false values\<close>
  "passes_presence_checks d =
     (case d of
        JObject kvs \<Rightarrow>
          map_of kvs ''resourceType'' = Some (JString ''CapabilityStatement'') \<and>
          (case map_of kvs ''fhirVersion'' of None \<Rightarrow> False | Some v \<Rightarrow> v \<notin> set falsy)
      | _ \<Rightarrow> False)"

fun plain :: "json \<Rightarrow> bool" where
  \<comment> \<open>no object of the structure repeats a name or has an array index for a name, and
      every number is finite\<close>
  "plain (JNumber n) = (case n of Finite q \<Rightarrow> True | _ \<Rightarrow> False)"
| "plain (JArray xs) = list_all plain xs"
| "plain (JObject ps) =
     (distinct (map fst ps) \<and> list_all (\<lambda>m. array_index (fst m) = None \<and> plain (snd m)) ps)"
| "plain v = True"




subsection \<open>Example pages and browsers\<close>

definition blank_page :: "unit viewer" where
  "blank_page =
     \<lparr>capabilityData = None, fhir_url = [], error_text = [], error_section = False,
      loading_section = False, load_button_disabled = False, results_section = False,
      views = (), network = [], console = []\<rparr>"

definition page_with :: "string \<Rightarrow> unit viewer" where
  "page_with u = blank_page\<lparr>fhir_url := u\<rparr>"

definition browser ::
  "string list \<Rightarrow> (string \<times> json) list \<Rightarrow> (string \<times> fetch_result) list \<Rightarrow> unit platform" where
  \<comment> \<open>a browser given by tables: the strings \<open>new URL\<close> accepts among those tried, the texts
      that are JSON with their structure as written, the answers of the network by request target
      (no answer listed: the request fails); rendering never throws\<close>
  "browser urls docs net =
     \<lparr>URL_accepts = (\<lambda>s. s \<in> set urls),
      JSON_read = (\<lambda>t. case map_of docs t of None \<Rightarrow> Inl ''Unexpected token'' | Some d \<Rightarrow> Inr d),
      fetch = (\<lambda>r. case map_of net (target r) of None \<Rightarrow> Rejected ''Failed to fetch'' | Some a \<Rightarrow> a),
      render = (\<lambda>d v. (None, v))\<rparr>"

definition answer :: "nat \<Rightarrow> string \<Rightarrow> string \<Rightarrow> fetch_result" where
  "answer code reason text = Resolved \<lparr>status = code, statusText = reason, body = Text text\<rparr>"

definition example_url :: string where
  "example_url = ''https://example.org/metadata''"

definition example_direct :: string where
  "example_direct = ''https://example.org/metadata?_format=json''"

definition example_proxied :: string where
  "example_proxied =
     ''https://api.allorigins.win/raw?url=https%3A%2F%2Fexample.org%2Fmetadata%3F_format%3Djson''"

definition capability_body :: string where
  \<open>capability_body = ''{"resourceType":"CapabilityStatement","fhirVersion":"4.0.1"}''\<close>

definition capability_doc :: json where
  "capability_doc =
     JObject [(''resourceType'', JString ''CapabilityStatement''), (''fhirVersion'', JString ''4.0.1'')]"

definition patient_body :: string where
  \<open>patient_body = ''{"resourceType":"Patient"}''\<close>

definition patient_doc :: json where
  "patient_doc = JObject [(''resourceType'', JString ''Patient'')]"

definition numeric_body :: string where
  \<open>numeric_body = ''{"resourceType":"CapabilityStatement","fhirVersion":4}''\<close>

definition numeric_doc :: json where
  "numeric_doc =
     JObject [(''resourceType'', JString ''CapabilityStatement''), (''fhirVersion'', JNumber (Finite 4))]"

definition html_body :: string where
  "html_body = ''<html><body>Not Found</body></html>''"

definition lowercase_page :: string where
  "lowercase_page = ''<!doctype html><html lang=en><body>Not Found</body></html>''"

definition repeated_body :: string where
  \<open>repeated_body =
     ''{"resourceType":"CapabilityStatement","fhirVersion":"4.0.1","name":"a","name":"b"}''\<close>

definition repeated_written :: json where
  "repeated_written =
     JObject [(''resourceType'', JString ''CapabilityStatement''), (''fhirVersion'', JString ''4.0.1''),
              (''name'', JString ''a''), (''name'', JString ''b'')]"

definition indexed_body :: string where
  \<open>indexed_body = ''{"resourceType":"CapabilityStatement","fhirVersion":"4.0.1","1":"x"}''\<close>

definition indexed_written :: json where
  "indexed_written =
     JObject [(''resourceType'', JString ''CapabilityStatement''), (''fhirVersion'', JString ''4.0.1''),
              (''1'', JString ''x'')]"

definition documents :: "(string \<times> json) list" where
  "documents =
     [(capability_body, capability_doc), (patient_body, patient_doc), (numeric_body, numeric_doc),
      (repeated_body, repeated_written), (indexed_body, indexed_written)]"

definition direct_browser :: "string \<Rightarrow> unit platform" where
  \<comment> \<open>the direct request is answered 200 with the given body\<close>
  "direct_browser text = browser [example_url] documents [(example_direct, answer 200 ''OK'' text)]"

definition relay_browser :: "fetch_result \<Rightarrow> unit platform" where
  \<comment> \<open>the direct request fails at the transport level, the relay gives the answer\<close>
  "relay_browser a = browser [example_url] documents [(example_proxied, a)]"

definition not_found_browser :: "unit platform" where
  \<comment> \<open>the direct request is answered 404 and the relay cannot be reached\<close>
  "not_found_browser =
     browser [example_url] documents [(example_direct, answer 404 ''Not Found'' html_body)]"

section \<open>Properties\<close>

subsection \<open>The method and the result of a load\<close>

lemmas page_defs =
  showLoading_def hideLoading_def showError_def hideError_def hideResults_def showResults_def

lemmas method_defs =
  loadCapabilityStatement_def try_catch_finally_def catch_block_def try_block_def
  displayCapabilityStatement_def

lemmas example_defs =
  browser_def answer_def example_url_def example_direct_def example_proxied_def
  capability_body_def capability_doc_def patient_body_def patient_doc_def numeric_body_def
  numeric_doc_def html_body_def documents_def direct_browser_def relay_browser_def
  not_found_browser_def blank_page_def page_with_def lowercase_page_def repeated_body_def
  repeated_written_def indexed_body_def indexed_written_def

lemma fst_loadCapabilityStatement: "fst (loadCapabilityStatement p s) = Inr ()"
  by (simp add: loadCapabilityStatement_def try_catch_finally_def catch_block_def Let_def
      split: prod.splits sum.splits)

lemma fhir_url_loadCapabilityStatement: "fhir_url (snd (loadCapabilityStatement p s)) = fhir_url s"
  by (simp add: method_defs page_defs Let_def split: prod.splits sum.splits option.splits)

lemma load_valid:
  "url \<noteq> [] \<Longrightarrow> isValidUrl p url \<Longrightarrow>
   load p url =
     (case outcome (fetch_and_validate p url) of
        Inl e \<Rightarrow> Failure (fst e) (errorMessage (snd e))
      | Inr data \<Rightarrow> Success data,
      sent (fetch_and_validate p url))"
  by (simp add: load_def Let_def)

lemma loadCapabilityStatement_Failure:
  assumes "fst (load p (trim (fhir_url s))) = Failure k m"
  shows "capabilityData (snd (loadCapabilityStatement p s)) = capabilityData s"
    and "views (snd (loadCapabilityStatement p s)) = views s"
    and "error_text (snd (loadCapabilityStatement p s)) = m"
    and "error_section (snd (loadCapabilityStatement p s))"
  using assms
  by (auto simp: load_def method_defs page_defs Let_def split: if_splits sum.splits prod.splits)

lemma loadCapabilityStatement_Success:
  assumes "fst (load p (trim (fhir_url s))) = Success d"
  shows "capabilityData (snd (loadCapabilityStatement p s)) = Some d"
    and "views (snd (loadCapabilityStatement p s)) = snd (render p (Some d) (views s))"
  using assms
  by (auto simp: load_def method_defs page_defs Let_def
      split: if_splits sum.splits prod.splits option.splits)

lemma network_loadCapabilityStatement:
  "network (snd (loadCapabilityStatement p s)) = network s @ snd (load p (trim (fhir_url s)))"
  by (auto simp: load_def method_defs page_defs Let_def
      split: if_splits sum.splits prod.splits option.splits)

lemma sent_direct_fetch: "sent (direct_fetch p url) = [direct_request url]"
  by (simp add: direct_fetch_def await_fetch_def)

lemma sent_proxy_fetch: "sent (proxy_fetch p url) = [proxy_request url]"
  by (simp add: proxy_fetch_def await_fetch_def)

lemma outcome_direct_fetch:
  "outcome (direct_fetch p url) =
     (case fetch p (direct_request url) of
        Rejected m \<Rightarrow> Inl (NetworkFailure, m)
      | Resolved r \<Rightarrow>
          if \<not> ok r
          then Inl (HttpError, ''HTTP '' @ show_nat (status r) @ '': '' @ statusText r)
          else response_json p r)"
  by (simp add: direct_fetch_def await_fetch_def)

lemma outcome_proxy_fetch:
  "outcome (proxy_fetch p url) =
     (case fetch p (proxy_request url) of
        Rejected m \<Rightarrow> Inl (NetworkFailure, m)
      | Resolved r \<Rightarrow>
          if \<not> ok r
          then Inl (HttpError,
                 ''Proxy request failed: HTTP '' @ show_nat (status r) @ '': '' @ statusText r)
          else (case body r of
                  Unreadable m \<Rightarrow> Inl (NetworkFailure, m)
                | Text responseText \<Rightarrow>
                    (case JSON_parse p responseText of
                       Inr data \<Rightarrow> Inr data
                     | Inl parseError \<Rightarrow>
                         if str_includes responseText ''<html>'' \<or>
                            str_includes responseText ''<!DOCTYPE''
                         then Inl (UnexpectedHtmlResponse,
                                ''The server returned an HTML page instead of JSON. This might indicate the URL is incorrect or the server is not responding properly.'')
                         else Inl (InvalidJson, ''Invalid JSON response from server''))))"
  by (simp add: proxy_fetch_def await_fetch_def)

lemma stage1_fails_iff: "stage1_fails p url \<longleftrightarrow> (\<exists>e. outcome (direct_fetch p url) = Inl e)"
  by (auto simp: stage1_fails_def outcome_direct_fetch response_json_def
      split: fetch_result.splits body.splits sum.splits)

lemma fetch_data_stage1_fails:
  assumes "stage1_fails p url"
  shows "outcome (fetch_data p url) = outcome (proxy_fetch p url)"
    and "sent (fetch_data p url) = sent (direct_fetch p url) @ sent (proxy_fetch p url)"
  using assms by (auto simp: stage1_fails_iff fetch_data_def Let_def)

lemma fetch_data_stage1_passes:
  assumes "\<not> stage1_fails p url"
  shows "fetch_data p url = direct_fetch p url"
  using assms by (auto simp: stage1_fails_iff fetch_data_def Let_def split: sum.splits)

lemma sent_fetch_data:
  "sent (fetch_data p url) =
     (if stage1_fails p url then [direct_request url, proxy_request url] else [direct_request url])"
  by (simp add: fetch_data_stage1_fails fetch_data_stage1_passes sent_direct_fetch sent_proxy_fetch)

lemma sent_fetch_and_validate: "sent (fetch_and_validate p url) = sent (fetch_data p url)"
  by (simp add: fetch_and_validate_def Let_def split: sum.splits)

lemma logged_fetch_and_validate: "logged (fetch_and_validate p url) = logged (fetch_data p url)"
  by (simp add: fetch_and_validate_def Let_def split: sum.splits)

lemma outcome_fetch_data:
  "outcome (fetch_data p url) =
     (if stage1_fails p url then outcome (proxy_fetch p url) else outcome (direct_fetch p url))"
  by (simp add: fetch_data_stage1_fails fetch_data_stage1_passes)

lemma direct_fetch_Inr:
  "outcome (direct_fetch p url) = Inr d \<longleftrightarrow>
   (\<exists>r t. fetch p (direct_request url) = Resolved r \<and> ok r \<and> body r = Text t \<and>
          JSON_parse p t = Inr d)"
  by (auto simp: outcome_direct_fetch response_json_def
      split: fetch_result.splits body.splits sum.splits)

lemma proxy_fetch_Inr:
  "outcome (proxy_fetch p url) = Inr d \<longleftrightarrow>
   (\<exists>r t. fetch p (proxy_request url) = Resolved r \<and> ok r \<and> body r = Text t \<and>
          JSON_parse p t = Inr d)"
  by (auto simp: outcome_proxy_fetch split: fetch_result.splits body.splits sum.splits)

lemma outcome_validated:
  "outcome (fetch_and_validate p url) = Inr d \<longleftrightarrow>
   outcome (fetch_data p url) = Inr d \<and> isValidCapabilityStatement d"
  by (auto simp: fetch_and_validate_def Let_def split: sum.splits if_splits)


subsection \<open>Input validation\<close>

text \<open>
  Claim C4. For every input string that does not parse as a well-formed absolute URL,
  load returns an InvalidInput failure and issues zero network requests. The input
  string of load is the constant \<open>url\<close> of the method, the trimmed value of the input
  field; the empty string never reaches \<open>new URL\<close>, it is refused before.
\<close>

theorem invalid_input_no_request:
  assumes "url = [] \<or> \<not> isValidUrl p url"
  shows "(\<exists>m. fst (load p url) = Failure InvalidInput m) \<and> snd (load p url) = [] \<and>
         (trim (fhir_url s) = url \<longrightarrow>
            network (snd (loadCapabilityStatement p s)) = network s \<and>
            capabilityData (snd (loadCapabilityStatement p s)) = capabilityData s)"
proof -
  from assms have l: "\<exists>m. load p url = (Failure InvalidInput m, [])"
    by (auto simp: load_def)
  then obtain m where m: "load p url = (Failure InvalidInput m, [])" ..
  have "network (snd (loadCapabilityStatement p s)) = network s \<and>
        capabilityData (snd (loadCapabilityStatement p s)) = capabilityData s"
    if "trim (fhir_url s) = url"
    using that m network_loadCapabilityStatement [of p s]
      loadCapabilityStatement_Failure(1) [of p s InvalidInput m] by simp
  with m show ?thesis by simp
qed

theorem invalid_input_no_request_witness:
  "(\<exists>m. fst (load (direct_browser capability_body) ''not-a-url'') = Failure InvalidInput m) \<and>
   snd (load (direct_browser capability_body) ''not-a-url'') = [] \<and>
   network (snd (loadCapabilityStatement (direct_browser capability_body) (page_with '' not-a-url ''))) = []"
proof -
  have h: "''not-a-url'' = [] \<or> \<not> isValidUrl (direct_browser capability_body) ''not-a-url''"
    by (simp add: isValidUrl_def example_defs)
  have t: "trim (fhir_url (page_with '' not-a-url '')) = ''not-a-url''"
    by code_simp
  have n: "network (page_with '' not-a-url '') = []"
    by (simp add: example_defs)
  from invalid_input_no_request [OF h, of "page_with '' not-a-url ''"] t n show ?thesis
    by simp
qed

subsection \<open>The fallback request\<close>






subsection \<open>Every load ends in one result\<close>

text \<open>
  Claim C3. Every load invocation terminates with exactly one outcome, Success(document)
  or a classified Failure: no error raised at any stage (URL parsing, either network
  request, JSON parsing, schema validation) propagates unhandled to the caller.
  The method is a total function of the page and of what the browser answers; it ends
  without an error leaving it, its result is of exactly one of the two forms, a failure
  is shown with its text and a success is stored.
\<close>

theorem load_ends_in_one_result:
  "fst (loadCapabilityStatement p s) = Inr () \<and>
   ((\<exists>d. fst (load p (trim (fhir_url s))) = Success d) \<noteq>
    (\<exists>k m. fst (load p (trim (fhir_url s))) = Failure k m)) \<and>
   (case fst (load p (trim (fhir_url s))) of
      Success d \<Rightarrow> capabilityData (snd (loadCapabilityStatement p s)) = Some d
    | Failure k m \<Rightarrow>
        error_section (snd (loadCapabilityStatement p s)) \<and>
        error_text (snd (loadCapabilityStatement p s)) = m \<and>
        capabilityData (snd (loadCapabilityStatement p s)) = capabilityData s)"
proof (cases "fst (load p (trim (fhir_url s)))")
  case (Success d)
  then show ?thesis
    by (simp add: fst_loadCapabilityStatement loadCapabilityStatement_Success(1))
next
  case (Failure k m)
  then show ?thesis
    by (simp add: fst_loadCapabilityStatement loadCapabilityStatement_Failure)
qed

theorem load_ends_in_one_result_witness:
  "fst (loadCapabilityStatement (relay_browser (answer 200 ''OK'' html_body)) (page_with example_url))
     = Inr () \<and>
   error_section
     (snd (loadCapabilityStatement (relay_browser (answer 200 ''OK'' html_body)) (page_with example_url))) \<and>
   capabilityData
     (snd (loadCapabilityStatement (relay_browser (answer 200 ''OK'' html_body)) (page_with example_url)))
     = None"
proof -
  let ?p = "relay_browser (answer 200 ''OK'' html_body)"
  have t: "trim (fhir_url (page_with example_url)) = example_url"
    by code_simp
  have l: "fst (load ?p example_url) =
      Failure UnexpectedHtmlResponse
        ''The server returned an HTML page instead of JSON. This might indicate the URL is incorrect or the server is not responding properly.''"
    by code_simp
  have c: "capabilityData (page_with example_url) = None"
    by (simp add: example_defs)
  from load_ends_in_one_result [of ?p "page_with example_url"] t l c show ?thesis
    by simp
qed

subsection \<open>The document of a success\<close>

lemma put_fresh: "k \<notin> fst ` set ps \<Longrightarrow> put k v ps = ps @ [(k, v)]"
  by (induction ps) auto

lemma foldl_put_distinct:
  "distinct (map fst (acc @ ms)) \<Longrightarrow> foldl (\<lambda>ps m. put (fst m) (snd m) ps) acc ms = acc @ ms"
proof (induction ms arbitrary: acc)
  case Nil
  show ?case by simp
next
  case (Cons m ms)
  from Cons.prems have fresh: "fst m \<notin> fst ` set acc"
    by auto
  from Cons.prems have "distinct (map fst ((acc @ [m]) @ ms))"
    by simp
  then have "foldl (\<lambda>ps m. put (fst m) (snd m) ps) (acc @ [m]) ms = (acc @ [m]) @ ms"
    by (rule Cons.IH)
  with fresh show ?case
    by (simp add: put_fresh)
qed

lemma own_properties_plain:
  assumes "distinct (map fst ms)" and "\<forall>m \<in> set ms. array_index (fst m) = None"
  shows "own_properties ms = ms"
proof -
  have created: "foldl (\<lambda>ps m. put (fst m) (snd m) ps) [] ms = ms"
    using assms(1) foldl_put_distinct [of "[]" ms] by simp
  have none: "List.map_filter (\<lambda>m. map_option (\<lambda>n. (n, m)) (array_index (fst m))) ms = []"
    using assms(2) by (simp add: List.map_filter_def filter_empty_conv)
  have all: "filter (\<lambda>m. array_index (fst m) = None) ms = ms"
    using assms(2) by simp
  show ?thesis
    by (simp add: own_properties_def created none all)
qed

lemma internalize_plain: "plain w \<Longrightarrow> internalize w = w"
proof (induction w)
  case (JArray xs)
  then have "map internalize xs = xs"
    by (intro map_idI) (simp add: list_all_iff)
  then show ?case by simp
next
  case (JObject ps)
  have "(fst m, internalize (snd m)) = m" if "m \<in> set ps" for m
  proof -
    from that JObject.prems have "plain (snd m)"
      by (simp add: list_all_iff)
    moreover have "snd m \<in> Basic_BNFs.snds m"
      by (cases m) simp
    ultimately have "internalize (snd m) = snd m"
      using that JObject.IH [of m "snd m"] by simp
    then show ?thesis by simp
  qed
  then have same: "map (\<lambda>m. (fst m, internalize (snd m))) ps = ps"
    by (intro map_idI)
  from JObject.prems have "own_properties ps = ps"
    by (intro own_properties_plain) (simp_all add: list_all_iff)
  with same show ?case by simp
qed simp_all

lemma written_plain: "plain w \<Longrightarrow> written w = w"
proof (induction w)
  case (JNumber n)
  then show ?case by (cases n) simp_all
next
  case (JArray xs)
  then have "map written xs = xs"
    by (intro map_idI) (simp add: list_all_iff)
  then show ?case by simp
next
  case (JObject ps)
  have "(fst m, written (snd m)) = m" if "m \<in> set ps" for m
  proof -
    from that JObject.prems have "plain (snd m)"
      by (simp add: list_all_iff)
    moreover have "snd m \<in> Basic_BNFs.snds m"
      by (cases m) simp
    ultimately have "written (snd m) = snd m"
      using that JObject.IH [of m "snd m"] by simp
    then show ?thesis by simp
  qed
  then have "map (\<lambda>m. (fst m, written (snd m))) ps = ps"
    by (intro map_idI)
  then show ?case by simp
qed simp_all

text \<open>
  Claim C6 as stated fails. Of two members of one name in the fetched body only the
  last is in the document of the Success, and a member whose name is an array index
  has moved to the front: serialized back, the document is not structurally equal to
  the body.
\<close>

theorem repeated_or_indexed_member_changes:
  "JSON_read (direct_browser repeated_body) repeated_body = Inr repeated_written \<and>
   fst (load (direct_browser repeated_body) example_url) =
     Success (JObject [(''resourceType'', JString ''CapabilityStatement''),
                       (''fhirVersion'', JString ''4.0.1''), (''name'', JString ''b'')]) \<and>
   written (JObject [(''resourceType'', JString ''CapabilityStatement''),
                     (''fhirVersion'', JString ''4.0.1''), (''name'', JString ''b'')])
     \<noteq> repeated_written \<and>
   JSON_read (direct_browser indexed_body) indexed_body = Inr indexed_written \<and>
   fst (load (direct_browser indexed_body) example_url) =
     Success (JObject [(''1'', JString ''x''), (''resourceType'', JString ''CapabilityStatement''),
                       (''fhirVersion'', JString ''4.0.1'')]) \<and>
   written (JObject [(''1'', JString ''x''), (''resourceType'', JString ''CapabilityStatement''),
                     (''fhirVersion'', JString ''4.0.1'')])
     \<noteq> indexed_written"
  by code_simp

text \<open>
  Claim C6, as amended. For every successful load, the document carried by the Success
  result is the value \<open>JSON.parse\<close> gives for the fetched body, stored as it is: the
  program drops, renames, reorders and transforms nothing. That value has the members
  of the body after the rules of JavaScript objects (of several members of one name the
  last value, at the place of the first; members named by array indices first, in
  ascending order). When no object of the body repeats a name or has an array index for
  a name and every number is finite, serializing the document back to JSON is
  structurally equal to the fetched body, member for member in the same order.
\<close>

theorem success_document_is_the_value_of_the_body:
  assumes "fst (load p url) = Success d"
  shows "\<exists>r t w. fetch p (last (snd (load p url))) = Resolved r \<and> ok r \<and> body r = Text t \<and>
                JSON_read p t = Inr w \<and> d = internalize w \<and>
                (plain w \<longrightarrow> d = w \<and> written d = w) \<and>
                (trim (fhir_url s) = url \<longrightarrow>
                   capabilityData (snd (loadCapabilityStatement p s)) = Some d)"
proof -
  from assms have valid: "url \<noteq> []" "isValidUrl p url"
    by (auto simp: load_def split: if_splits)
  with assms have "outcome (fetch_and_validate p url) = Inr d"
    by (auto simp: load_valid split: sum.splits)
  then have data: "outcome (fetch_data p url) = Inr d"
    by (simp add: outcome_validated)
  have sent: "snd (load p url) = sent (fetch_data p url)"
    using valid by (simp add: load_valid sent_fetch_and_validate)
  have "\<exists>r t. fetch p (last (snd (load p url))) = Resolved r \<and> ok r \<and> body r = Text t \<and>
          JSON_parse p t = Inr d"
  proof (cases "stage1_fails p url")
    case True
    with data have "outcome (proxy_fetch p url) = Inr d"
      by (simp add: outcome_fetch_data)
    with True show ?thesis
      by (simp add: sent sent_fetch_data proxy_fetch_Inr)
  next
    case False
    with data have "outcome (direct_fetch p url) = Inr d"
      by (simp add: outcome_fetch_data)
    with False show ?thesis
      by (simp add: sent sent_fetch_data direct_fetch_Inr)
  qed
  then obtain r t where rt: "fetch p (last (snd (load p url))) = Resolved r" "ok r"
    "body r = Text t" "JSON_parse p t = Inr d"
    by blast
  from rt(4) obtain w where w: "JSON_read p t = Inr w" "d = internalize w"
    by (auto simp: JSON_parse_def split: sum.splits)
  have same: "d = w \<and> written d = w" if "plain w"
    using that w(2) by (simp add: internalize_plain written_plain)
  have stored: "capabilityData (snd (loadCapabilityStatement p s)) = Some d"
    if "trim (fhir_url s) = url"
    using that assms loadCapabilityStatement_Success(1) [of p s d] by simp
  from rt w same stored show ?thesis by blast
qed

theorem success_document_is_the_value_of_the_body_witness:
  "fst (load (direct_browser capability_body) example_url) = Success capability_doc \<and>
   plain capability_doc \<and> written capability_doc = capability_doc \<and>
   JSON_read (direct_browser capability_body) capability_body = Inr capability_doc \<and>
   capabilityData (snd (loadCapabilityStatement (direct_browser capability_body) (page_with example_url)))
     = Some capability_doc"
proof -
  let ?p = "direct_browser capability_body"
  have l: "fst (load ?p example_url) = Success capability_doc"
    by code_simp
  have t: "trim (fhir_url (page_with example_url)) = example_url"
    by code_simp
  have q: "last (snd (load ?p example_url)) = direct_request example_url"
    by code_simp
  have a: "fetch ?p (direct_request example_url) =
      Resolved \<lparr>status = 200, statusText = ''OK'', body = Text capability_body\<rparr>"
    by code_simp
  have c: "JSON_read ?p capability_body = Inr capability_doc"
    by code_simp
  have pl: "plain capability_doc"
    by code_simp
  from success_document_is_the_value_of_the_body [OF l, of "page_with example_url"]
  obtain r t' w where "fetch ?p (last (snd (load ?p example_url))) = Resolved r \<and> ok r \<and>
      body r = Text t' \<and> JSON_read ?p t' = Inr w \<and> capability_doc = internalize w \<and>
      (plain w \<longrightarrow> capability_doc = w \<and> written capability_doc = w) \<and>
      (trim (fhir_url (page_with example_url)) = example_url \<longrightarrow>
         capabilityData (snd (loadCapabilityStatement ?p (page_with example_url))) =
           Some capability_doc)"
    by blast
  then have *: "fetch ?p (last (snd (load ?p example_url))) = Resolved r"
    "body r = Text t'" "JSON_read ?p t' = Inr w"
    "plain w \<longrightarrow> capability_doc = w \<and> written capability_doc = w"
    "trim (fhir_url (page_with example_url)) = example_url \<longrightarrow>
       capabilityData (snd (loadCapabilityStatement ?p (page_with example_url))) = Some capability_doc"
    by simp_all
  from *(1) q a have "r = \<lparr>status = 200, statusText = ''OK'', body = Text capability_body\<rparr>"
    by simp
  with *(2) have "t' = capability_body"
    by simp
  with *(3) c have "w = capability_doc"
    by simp
  with *(4) pl have "written capability_doc = capability_doc"
    by simp
  with l pl c *(5) t show ?thesis
    by simp
qed

subsection \<open>The stored document\<close>

lemma stored_valid_loadCapabilityStatement:
  assumes "stored_valid s"
  shows "stored_valid (snd (loadCapabilityStatement p s))"
proof (cases "fst (load p (trim (fhir_url s)))")
  case (Success d)
  then have "outcome (fetch_and_validate p (trim (fhir_url s))) = Inr d"
    by (auto simp: load_def Let_def split: if_splits sum.splits)
  then have "isValidCapabilityStatement d"
    by (simp add: outcome_validated)
  with Success show ?thesis
    by (simp add: stored_valid_def loadCapabilityStatement_Success(1))
next
  case (Failure k m)
  with assms show ?thesis
    by (simp add: stored_valid_def loadCapabilityStatement_Failure(1))
qed

lemma isValidCapabilityStatement_demoData: "isValidCapabilityStatement demoData"
  by (simp add: isValidCapabilityStatement_def demoData_def)

lemma stored_valid_loadStaticDemoData: "stored_valid (snd (loadStaticDemoData p s))"
  by (simp add: stored_valid_def loadStaticDemoData_def displayCapabilityStatement_def page_defs
      isValidCapabilityStatement_demoData split: prod.splits option.splits)

lemma stored_valid_constructor: "stored_valid (snd (constructor p search page))"
proof -
  have null: "stored_valid (page\<lparr>capabilityData := None\<rparr>)"
    by (simp add: stored_valid_def)
  have "stored_valid (snd (loadCapabilityStatement p (page\<lparr>capabilityData := None, fhir_url := u\<rparr>)))"
    for u
    by (rule stored_valid_loadCapabilityStatement) (simp add: stored_valid_def)
  with null show ?thesis
    by (simp add: constructor_def checkUrlParameters_def split: option.splits)
qed

lemma reachable_stored_valid: "reachable s \<Longrightarrow> stored_valid s"
proof (induction rule: reachable.induct)
  case (start p search page)
  show ?case by (rule stored_valid_constructor)
next
  case (edit s u)
  then show ?case by (simp add: stored_valid_def)
next
  case (load_button s p)
  then show ?case by (simp add: stored_valid_loadCapabilityStatement)
next
  case (demo_button s p)
  then have "stored_valid (s\<lparr>fhir_url := sandboxUrl\<rparr>)"
    by (simp add: stored_valid_def)
  then show ?case
    unfolding loadDemoData_def by (rule stored_valid_loadCapabilityStatement)
next
  case (static_demo s p)
  show ?case by (rule stored_valid_loadStaticDemoData)
qed

text \<open>
  Claim C10. The stored capability document (\<open>capabilityData\<close>) is at every point either
  null or an object passing the CapabilityStatement validity check, because it is
  assigned only after validation succeeds; consequently, when a load fails at any stage
  (a SchemaMismatch after a transport-level success included) the previously stored
  document is left unchanged and the rendered views are not rebuilt from partial data.
  The invariant holds in every state a viewer reaches, the static demo data included
  (assigned without the check, it passes it). A load fails when its result is a
  Failure, whatever the kind: an error thrown before the assignment. An error thrown
  by the render methods comes after it; the load has then succeeded, and the document,
  which passed the check, is stored while the text of the error is shown.
\<close>

theorem stored_document_null_or_valid:
  "(reachable s \<longrightarrow> stored_valid s) \<and>
   (fst (load p (trim (fhir_url s))) = Failure k m \<longrightarrow>
      capabilityData (snd (loadCapabilityStatement p s)) = capabilityData s \<and>
      views (snd (loadCapabilityStatement p s)) = views s)"
  using reachable_stored_valid [of s] loadCapabilityStatement_Failure(1,2) [of p s k m]
  by blast

theorem stored_document_null_or_valid_witness:
  "reachable (snd (constructor (direct_browser capability_body)
                     ''?url=https%3A%2F%2Fexample.org%2Fmetadata'' blank_page)) \<and>
   stored_valid (snd (constructor (direct_browser capability_body)
                        ''?url=https%3A%2F%2Fexample.org%2Fmetadata'' blank_page)) \<and>
   capabilityData
     (snd (loadCapabilityStatement (relay_browser (answer 200 ''OK'' patient_body))
             (snd (constructor (direct_browser capability_body)
                     ''?url=https%3A%2F%2Fexample.org%2Fmetadata'' blank_page))))
     = Some capability_doc"
proof -
  let ?s = "snd (constructor (direct_browser capability_body)
                   ''?url=https%3A%2F%2Fexample.org%2Fmetadata'' blank_page)"
  let ?p = "relay_browser (answer 200 ''OK'' patient_body)"
  have r: "reachable ?s"
    by (rule reachable.start)
  have c: "capabilityData ?s = Some capability_doc"
    by code_simp
  have f: "fst (load ?p (trim (fhir_url ?s))) =
      Failure SchemaMismatch ''The response does not appear to be a valid FHIR CapabilityStatement''"
    by code_simp
  from stored_document_null_or_valid
    [of ?s ?p SchemaMismatch
      "''The response does not appear to be a valid FHIR CapabilityStatement''"]
    r c f
  show ?thesis by simp
qed

subsection \<open>The validity check\<close>

lemma truthy_Some: "truthy (Some x) \<longleftrightarrow> x \<notin> set falsy"
  by (cases x) (simp_all add: falsy_def)

lemma truthy_case: "truthy v \<longleftrightarrow> (case v of None \<Rightarrow> False | Some x \<Rightarrow> x \<notin> set falsy)"
  by (cases v) (simp_all add: truthy_Some)

lemma isValidCapabilityStatement_iff:
  "isValidCapabilityStatement d \<longleftrightarrow> passes_presence_checks d"
proof (cases d)
  case (JObject kvs)
  have "truthy (Some (JObject kvs))" by simp
  then show ?thesis
    unfolding JObject isValidCapabilityStatement_def passes_presence_checks_def
    using truthy_case [of "map_of kvs ''fhirVersion''"] by simp
qed (simp_all add: isValidCapabilityStatement_def passes_presence_checks_def)

text \<open>
  Claim C2, as amended. load returns a SchemaMismatch failure exactly when the
  successfully parsed JSON body is not an object, or its \<open>resourceType\<close> is absent or not
  the literal string "CapabilityStatement", or its \<open>fhirVersion\<close> is absent or one of the
  false values (null, false, 0, the empty string); conversely a Success is returned
  only for documents whose \<open>fhirVersion\<close> is present and not one of these: a non-empty
  string, but also a non-zero number, true, an array or an object.
\<close>

theorem schema_mismatch_iff_presence_checks_fail:
  "((\<exists>m. fst (load p url) = Failure SchemaMismatch m) \<longleftrightarrow>
      url \<noteq> [] \<and> isValidUrl p url \<and>
      (\<exists>d. outcome (fetch_data p url) = Inr d \<and> \<not> passes_presence_checks d)) \<and>
   (fst (load p url) = Success d \<longrightarrow>
      outcome (fetch_data p url) = Inr d \<and> passes_presence_checks d)"
proof -
  have kinds: "fst e \<noteq> SchemaMismatch" if "outcome (fetch_data p url) = Inl e" for e
    using that
    by (auto simp: outcome_fetch_data outcome_direct_fetch outcome_proxy_fetch response_json_def
        split: if_splits fetch_result.splits body.splits sum.splits)
  have out: "outcome (fetch_and_validate p url) =
      (case outcome (fetch_data p url) of
         Inl e \<Rightarrow> Inl e
       | Inr d \<Rightarrow>
           if passes_presence_checks d then Inr d
           else Inl (SchemaMismatch,
                  ''The response does not appear to be a valid FHIR CapabilityStatement''))"
    by (simp add: fetch_and_validate_def Let_def isValidCapabilityStatement_iff split: sum.splits)
  show ?thesis
  proof (cases "url \<noteq> [] \<and> isValidUrl p url")
    case False
    then show ?thesis by (auto simp: load_def)
  next
    case True
    then show ?thesis
      using kinds by (cases "outcome (fetch_data p url)") (auto simp: load_valid out)
  qed
qed

theorem schema_mismatch_iff_presence_checks_fail_witness:
  "fst (load (relay_browser (answer 200 ''OK'' patient_body)) example_url) =
     Failure SchemaMismatch ''The response does not appear to be a valid FHIR CapabilityStatement'' \<and>
   outcome (fetch_data (relay_browser (answer 200 ''OK'' patient_body)) example_url) = Inr patient_doc \<and>
   \<not> passes_presence_checks patient_doc \<and>
   fst (load (direct_browser capability_body) example_url) = Success capability_doc \<and>
   passes_presence_checks capability_doc"
proof -
  have 1: "fst (load (relay_browser (answer 200 ''OK'' patient_body)) example_url) =
     Failure SchemaMismatch ''The response does not appear to be a valid FHIR CapabilityStatement''"
    by code_simp
  have 2: "outcome (fetch_data (relay_browser (answer 200 ''OK'' patient_body)) example_url) =
     Inr patient_doc"
    by code_simp
  have 3: "fst (load (direct_browser capability_body) example_url) = Success capability_doc"
    by code_simp
  from schema_mismatch_iff_presence_checks_fail
    [of "relay_browser (answer 200 ''OK'' patient_body)" example_url] 1 2
  have "\<not> passes_presence_checks patient_doc"
    by auto
  moreover from schema_mismatch_iff_presence_checks_fail
    [of "direct_browser capability_body" example_url capability_doc] 3
  have "passes_presence_checks capability_doc"
    by blast
  ultimately show ?thesis using 1 2 3 by blast
qed

text \<open>
  Claim C2 as stated fails: a body whose \<open>fhirVersion\<close> is the number 4 is loaded with
  Success, not refused with SchemaMismatch.
\<close>

theorem numeric_fhirVersion_is_a_success:
  "fst (load (direct_browser numeric_body) example_url) = Success numeric_doc \<and>
   property numeric_doc ''fhirVersion'' = Some (JNumber (Finite 4))"
  by code_simp

subsection \<open>A fallback body that is not JSON\<close>






subsection \<open>A status outside 2xx\<close>

lemma str_includes_prefix: "prefix t s \<Longrightarrow> str_includes s t"
  by (simp add: str_includes_def prefix_imp_sublist)

lemma errorMessage_proxy_failed:
  "errorMessage (''Proxy request failed'' @ m) = proxy_failed_text \<or>
   errorMessage (''Proxy request failed'' @ m) = network_error_text"
proof -
  have "str_includes (''Proxy request failed'' @ m) ''Proxy request failed''"
    by (rule str_includes_prefix) simp
  then show ?thesis
    by (simp add: errorMessage_def)
qed

lemma console_loadCapabilityStatement:
  assumes "trim (fhir_url s) \<noteq> []" and "isValidUrl p (trim (fhir_url s))"
    and "outcome (fetch_and_validate p (trim (fhir_url s))) = Inl e"
  shows "console (snd (loadCapabilityStatement p s)) =
           console s @ logged (fetch_data p (trim (fhir_url s))) @
           [(''Error loading CapabilityStatement:'', snd e)]"
  using assms
  by (simp add: method_defs page_defs Let_def logged_fetch_and_validate)

text \<open>
  Claim C8 as stated fails at both stages. A direct request answered 404 whose relay
  cannot be reached ends in a NetworkFailure, and neither its text nor the text shown
  for a relay answered 500 names the status.
\<close>

theorem status_missing_from_failure:
  "fetch not_found_browser (direct_request example_url) = answer 404 ''Not Found'' html_body \<and>
   fst (load not_found_browser example_url) = Failure NetworkFailure network_error_text \<and>
   \<not> str_includes network_error_text ''404'' \<and>
   fetch (relay_browser (answer 500 ''Internal Server Error'' html_body)) (proxy_request example_url)
     = answer 500 ''Internal Server Error'' html_body \<and>
   fst (load (relay_browser (answer 500 ''Internal Server Error'' html_body)) example_url)
     = Failure HttpError proxy_failed_text \<and>
   \<not> str_includes proxy_failed_text ''500'' \<and>
   \<not> str_includes proxy_failed_text ''Internal Server Error''"
  by code_simp

text \<open>
  Claim C8, as amended. Whenever the fallback request completes with a non-2xx status,
  the load fails with an HttpError: the error thrown carries
  \<open>Proxy request failed: HTTP <status>: <statusText>\<close> and is written to the console, and
  the text shown is one of the two fixed advisory texts, which do not depend on the
  status. A non-2xx status of the direct request makes stage 1 fail: it is written to
  the console, and the result is that of the fallback request.
\<close>

theorem fallback_status_is_an_http_error:
  assumes "url \<noteq> []" and "isValidUrl p url"
  shows "(stage1_fails p url \<and> fetch p (proxy_request url) = Resolved r \<and> \<not> ok r \<longrightarrow>
            outcome (fetch_and_validate p url) =
              Inl (HttpError,
                ''Proxy request failed: HTTP '' @ show_nat (status r) @ '': '' @ statusText r) \<and>
            (fst (load p url) = Failure HttpError proxy_failed_text \<or>
             fst (load p url) = Failure HttpError network_error_text) \<and>
            (trim (fhir_url s) = url \<longrightarrow>
               last (console (snd (loadCapabilityStatement p s))) =
                 (''Error loading CapabilityStatement:'',
                  ''Proxy request failed: HTTP '' @ show_nat (status r) @ '': '' @ statusText r))) \<and>
         (fetch p (direct_request url) = Resolved r' \<and> \<not> ok r' \<longrightarrow>
            stage1_fails p url \<and>
            outcome (fetch_data p url) = outcome (proxy_fetch p url) \<and>
            logged (fetch_data p url) =
              [(''Direct fetch failed, trying CORS proxy...'',
                ''HTTP '' @ show_nat (status r') @ '': '' @ statusText r')])"
proof -
  let ?thrown = "''Proxy request failed: HTTP '' @ show_nat (status r) @ '': '' @ statusText r"
  have relay: "outcome (fetch_and_validate p url) = Inl (HttpError, ?thrown) \<and>
      (fst (load p url) = Failure HttpError proxy_failed_text \<or>
       fst (load p url) = Failure HttpError network_error_text) \<and>
      (trim (fhir_url s) = url \<longrightarrow>
         last (console (snd (loadCapabilityStatement p s))) =
           (''Error loading CapabilityStatement:'', ?thrown))"
    if h: "stage1_fails p url \<and> fetch p (proxy_request url) = Resolved r \<and> \<not> ok r"
  proof -
    from h have "outcome (proxy_fetch p url) = Inl (HttpError, ?thrown)"
      by (simp add: outcome_proxy_fetch)
    with h have out: "outcome (fetch_and_validate p url) = Inl (HttpError, ?thrown)"
      by (simp add: fetch_and_validate_def Let_def outcome_fetch_data)
    have "errorMessage ?thrown = proxy_failed_text \<or> errorMessage ?thrown = network_error_text"
      using errorMessage_proxy_failed [of "'': HTTP '' @ show_nat (status r) @ '': '' @ statusText r"]
      by simp
    with out assms have shown: "fst (load p url) = Failure HttpError proxy_failed_text \<or>
        fst (load p url) = Failure HttpError network_error_text"
      by (auto simp: load_valid)
    have "last (console (snd (loadCapabilityStatement p s))) =
        (''Error loading CapabilityStatement:'', ?thrown)" if "trim (fhir_url s) = url"
      using that assms out console_loadCapabilityStatement [of s p "(HttpError, ?thrown)"]
      by simp
    with out shown show ?thesis by blast
  qed
  have direct: "stage1_fails p url \<and> outcome (fetch_data p url) = outcome (proxy_fetch p url) \<and>
      logged (fetch_data p url) =
        [(''Direct fetch failed, trying CORS proxy...'',
          ''HTTP '' @ show_nat (status r') @ '': '' @ statusText r')]"
    if h: "fetch p (direct_request url) = Resolved r' \<and> \<not> ok r'"
  proof -
    from h have fails: "stage1_fails p url"
      by (simp add: stage1_fails_def)
    from h have "outcome (direct_fetch p url) =
        Inl (HttpError, ''HTTP '' @ show_nat (status r') @ '': '' @ statusText r')"
      by (simp add: outcome_direct_fetch)
    then have "logged (fetch_data p url) =
        [(''Direct fetch failed, trying CORS proxy...'',
          ''HTTP '' @ show_nat (status r') @ '': '' @ statusText r')]"
      by (simp add: fetch_data_def Let_def direct_fetch_def proxy_fetch_def await_fetch_def)
    with fails show ?thesis
      by (simp add: fetch_data_stage1_fails)
  qed
  from relay direct show ?thesis by blast
qed

theorem fallback_status_is_an_http_error_witness:
  "outcome (fetch_and_validate (relay_browser (answer 500 ''Internal Server Error'' html_body))
              example_url)
     = Inl (HttpError, ''Proxy request failed: HTTP 500: Internal Server Error'') \<and>
   last (console (snd (loadCapabilityStatement
                         (relay_browser (answer 500 ''Internal Server Error'' html_body))
                         (page_with example_url))))
     = (''Error loading CapabilityStatement:'',
        ''Proxy request failed: HTTP 500: Internal Server Error'') \<and>
   logged (fetch_data not_found_browser example_url) =
     [(''Direct fetch failed, trying CORS proxy...'', ''HTTP 404: Not Found'')]"
proof -
  let ?p = "relay_browser (answer 500 ''Internal Server Error'' html_body)"
  let ?r = "\<lparr>status = 500, statusText = ''Internal Server Error'', body = Text html_body\<rparr>"
  let ?r' = "\<lparr>status = 404, statusText = ''Not Found'', body = Text html_body\<rparr>"
  have u: "example_url \<noteq> []" by (simp add: example_url_def)
  have v: "isValidUrl ?p example_url" "isValidUrl not_found_browser example_url"
    by (simp_all add: isValidUrl_def example_defs)
  have h: "stage1_fails ?p example_url \<and> fetch ?p (proxy_request example_url) = Resolved ?r \<and>
           \<not> ok ?r"
    by code_simp
  have h': "fetch not_found_browser (direct_request example_url) = Resolved ?r' \<and> \<not> ok ?r'"
    by code_simp
  have t: "trim (fhir_url (page_with example_url)) = example_url"
    by code_simp
  have n: "show_nat (status ?r) = ''500''" "show_nat (status ?r') = ''404''"
    by code_simp+
  from fallback_status_is_an_http_error [OF u v(1), where r = ?r and s = "page_with example_url"]
    h t n(1)
  have "outcome (fetch_and_validate ?p example_url)
          = Inl (HttpError, ''Proxy request failed: HTTP 500: Internal Server Error'') \<and>
        last (console (snd (loadCapabilityStatement ?p (page_with example_url))))
          = (''Error loading CapabilityStatement:'',
             ''Proxy request failed: HTTP 500: Internal Server Error'')"
    by simp
  moreover from fallback_status_is_an_http_error [OF u v(2), where r' = ?r'] h' n(2)
  have "logged (fetch_data not_found_browser example_url) =
      [(''Direct fetch failed, trying CORS proxy...'', ''HTTP 404: Not Found'')]"
    by simp
  ultimately show ?thesis by blast
qed

subsection \<open>Appending the format parameter\<close>

lemma str_includes_single: "str_includes s [c] \<longleftrightarrow> c \<in> set s"
  unfolding str_includes_def
  by (induction s) (auto simp: sublist_Cons_right)

lemma takeWhile_no_fragment:
  "CHR ''#'' \<notin> set u \<Longrightarrow> takeWhile (\<lambda>c. c \<noteq> CHR ''#'') u = u"
  by (auto simp: takeWhile_eq_all_conv)

lemma format_url_without_fragment:
  assumes "CHR ''#'' \<notin> set url"
  shows "query_of (format_url url) =
           Some (case query_of url of
                   None \<Rightarrow> ''_format=json''
                 | Some q \<Rightarrow> q @ ''&_format=json'')"
proof (cases "CHR ''?'' \<in> set url")
  case True
  let ?u = "url @ ''&_format=json''"
  from assms have whole: "takeWhile (\<lambda>c. c \<noteq> CHR ''#'') ?u = ?u"
    by (intro takeWhile_no_fragment) simp
  from True have rest: "dropWhile (\<lambda>c. c \<noteq> CHR ''?'') url \<noteq> []"
    by auto
  from True have "dropWhile (\<lambda>c. c \<noteq> CHR ''?'') ?u =
      dropWhile (\<lambda>c. c \<noteq> CHR ''?'') url @ ''&_format=json''"
    by simp
  with rest have "tl (dropWhile (\<lambda>c. c \<noteq> CHR ''?'') ?u) =
      tl (dropWhile (\<lambda>c. c \<noteq> CHR ''?'') url) @ ''&_format=json''"
    by simp
  moreover from True have "format_url url = ?u"
    by (simp add: format_url_def str_includes_single)
  moreover from True assms have "query_of url = Some (tl (dropWhile (\<lambda>c. c \<noteq> CHR ''?'') url))"
    by (simp add: query_of_def takeWhile_no_fragment)
  moreover from True have "CHR ''?'' \<in> set ?u" by simp
  ultimately show ?thesis
    using whole by (simp add: query_of_def)
next
  case False
  let ?u = "url @ ''?_format=json''"
  from assms have whole: "takeWhile (\<lambda>c. c \<noteq> CHR ''#'') ?u = ?u"
    by (intro takeWhile_no_fragment) simp
  from False have "dropWhile (\<lambda>c. c \<noteq> CHR ''?'') ?u = ''?_format=json''"
    by (subst dropWhile_append2) auto
  moreover from False have "format_url url = ?u"
    by (simp add: format_url_def str_includes_single)
  moreover from False assms have "query_of url = None"
    by (simp add: query_of_def takeWhile_no_fragment)
  ultimately show ?thesis
    using whole by (simp add: query_of_def)
qed

text \<open>
  Claim C7. For every well-formed absolute URL, the direct request targets the input
  URL with the query parameter \<open>_format=json\<close> appended, joined with \<open>&\<close> when the URL
  already has a query string and with \<open>?\<close> when it does not, so that the result is a
  correctly merged URL in both cases; the same merged URL (percent-encoded) is what is
  embedded in the fallback request. The code appends at the end of the string: for a
  URL without a fragment the parameter joins the query
  (\<open>format_url_without_fragment\<close>), but after a fragment it becomes part of the
  fragment and the target has no query at all.
\<close>

theorem format_parameter_lands_in_fragment:
  "target (direct_request ''https://example.org/metadata#top'') =
     ''https://example.org/metadata#top?_format=json'' \<and>
   query_of (target (direct_request ''https://example.org/metadata#top'')) = None \<and>
   fragment_of (target (direct_request ''https://example.org/metadata#top'')) =
     Some ''top?_format=json'' \<and>
   target (direct_request ''https://example.org/metadata?a=1#top'') =
     ''https://example.org/metadata?a=1#top&_format=json'' \<and>
   query_of (target (direct_request ''https://example.org/metadata?a=1#top'')) = Some ''a=1''"
  by code_simp

subsection \<open>The address parameter and the permalink\<close>

lemma decodeURIComponent_without_percent:
  "CHR ''%'' \<notin> set u \<Longrightarrow> decodeURIComponent u = Some u"
  by (induction u) auto

lemma hex_value_digits: "k < 16 \<Longrightarrow> hex_value (digits ! k) = Some k"
proof -
  have "\<forall>k \<in> set [0 ..< 16]. hex_value (digits ! k) = Some k"
    by code_simp
  then show "k < 16 \<Longrightarrow> hex_value (digits ! k) = Some k"
    by simp
qed

lemma ParseHexOctet_escape:
  "ParseHexOctet [digits ! (of_char c div 16), digits ! (of_char c mod 16)] = Some (of_char c)"
proof -
  have "(of_char c :: nat) < 256"
    by (rule nat_of_char_less_256)
  then have "(of_char c :: nat) div 16 < 16" and "16 * (of_char c div 16) + of_char c mod 16 = (of_char c :: nat)"
    by arith+
  then show ?thesis
    by (simp add: ParseHexOctet_def hex_value_digits)
qed

lemma percent_decode_Cons:
  "c \<noteq> CHR ''%'' \<Longrightarrow> percent_decode (c # s) = c # percent_decode s"
  by (cases s rule: percent_decode.cases) simp_all

lemma percent_sign_escaped: "\<not> uriUnescaped CHR ''%''"
  by code_simp

lemma percent_decode_encodeURIComponent: "percent_decode (encodeURIComponent u) = u"
proof (induction u)
  case Nil
  show ?case by (simp add: encodeURIComponent_def)
next
  case (Cons c u)
  have step: "encodeURIComponent (c # u) =
      (if uriUnescaped c then [c] else escape_octet c) @ encodeURIComponent u"
    by (simp add: encodeURIComponent_def)
  show ?case
  proof (cases "uriUnescaped c")
    case True
    with percent_sign_escaped have "c \<noteq> CHR ''%''" by auto
    with True Cons.IH show ?thesis
      by (simp add: step percent_decode_Cons)
  next
    case False
    with Cons.IH show ?thesis
      by (simp add: step escape_octet_def ParseHexOctet_escape)
  qed
qed

lemma encodeURIComponent_chars:
  "set (encodeURIComponent u) \<subseteq> {c. uriUnescaped c} \<union> set (CHR ''%'' # digits)"
proof -
  have "set (escape_octet c) \<subseteq> set (CHR ''%'' # digits)" for c
  proof -
    have "(of_char c :: nat) < 256"
      by (rule nat_of_char_less_256)
    then have "(of_char c :: nat) div 16 < 16" "(of_char c :: nat) mod 16 < 16"
      by arith+
    then have "(of_char c :: nat) div 16 < length digits" "(of_char c :: nat) mod 16 < length digits"
      by (simp_all add: digits_def)
    then have "digits ! (of_char c div 16) \<in> set digits" "digits ! (of_char c mod 16) \<in> set digits"
      by (simp_all only: nth_mem)
    then show ?thesis
      by (simp add: escape_octet_def)
  qed
  then show ?thesis
    by (auto simp: encodeURIComponent_def split: if_splits)
qed

lemma encodeURIComponent_separators:
  "CHR ''&'' \<notin> set (encodeURIComponent u)" "CHR ''='' \<notin> set (encodeURIComponent u)"
  "CHR ''+'' \<notin> set (encodeURIComponent u)"
proof -
  have "\<not> uriUnescaped CHR ''&'' \<and> CHR ''&'' \<notin> set (CHR ''%'' # digits) \<and>
        \<not> uriUnescaped CHR ''='' \<and> CHR ''='' \<notin> set (CHR ''%'' # digits) \<and>
        \<not> uriUnescaped CHR ''+'' \<and> CHR ''+'' \<notin> set (CHR ''%'' # digits)"
    by code_simp
  with encodeURIComponent_chars [of u]
  show "CHR ''&'' \<notin> set (encodeURIComponent u)" "CHR ''='' \<notin> set (encodeURIComponent u)"
    "CHR ''+'' \<notin> set (encodeURIComponent u)"
    by blast+
qed

lemma split_on_absent: "d \<notin> set s \<Longrightarrow> split_on d s = [s]"
  by (induction s) auto

lemma plus_to_space_absent: "CHR ''+'' \<notin> set s \<Longrightarrow> plus_to_space s = s"
  by (induction s) (auto simp: plus_to_space_def)

lemma URLSearchParams_restores_target:
  "get (URLSearchParams (''?url='' @ encodeURIComponent u)) ''url'' = Some u"
proof -
  let ?e = "encodeURIComponent u"
  have init: "(case ''?url='' @ ?e of
                 c # r \<Rightarrow> if c = CHR ''?'' then r else ''?url='' @ ?e
               | [] \<Rightarrow> ''?url='' @ ?e) = ''url='' @ ?e"
    by simp
  have split: "split_on CHR ''&'' (''url='' @ ?e) = [''url='' @ ?e]"
    by (rule split_on_absent) (simp add: encodeURIComponent_separators)
  have kept: "filter (\<lambda>q. q \<noteq> []) [''url='' @ ?e] = [''url='' @ ?e]"
    by simp
  have pair: "name_value (''url='' @ ?e) = (''url'', ?e)"
    by (simp add: name_value_def)
  have name: "percent_decode (plus_to_space ''url'') = ''url''"
    by code_simp
  have val: "percent_decode (plus_to_space ?e) = u"
    by (simp add: plus_to_space_absent encodeURIComponent_separators
        percent_decode_encodeURIComponent)
  have "URLSearchParams (''?url='' @ ?e) = [(''url'', u)]"
    unfolding URLSearchParams_def init split kept
    by (simp only: list.map pair fst_conv snd_conv name val)
  then show ?thesis
    by (simp add: get_def)
qed

lemma checkUrlParameters_decoded:
  assumes "get (URLSearchParams search) ''url'' = Some v" and "v \<noteq> []"
    and "decodeURIComponent v = Some decodedUrl"
  shows "checkUrlParameters p search s = loadCapabilityStatement p (s\<lparr>fhir_url := decodedUrl\<rparr>)"
  using assms by (simp add: checkUrlParameters_def)

lemma checkUrlParameters_malformed:
  assumes "get (URLSearchParams search) ''url'' = Some v" and "v \<noteq> []"
    and "decodeURIComponent v = None"
  shows "checkUrlParameters p search s = (Inl ''URI malformed'', s)"
  using assms by (simp add: checkUrlParameters_def)

text \<open>
  Claim C9. When the application's own address carries a \<open>url\<close> query parameter, the URL
  passed to load is the raw parameter value decoded exactly once as a
  URL-component-encoded string; for every target URL, encoding it as a URL component
  into a \<open>?url=\<close> parameter and then reading it back through this input path yields the
  original target URL. The permalink encodes once, and \<open>URLSearchParams\<close> already undoes
  that for every target (\<open>URLSearchParams_restores_target\<close>); \<open>checkUrlParameters\<close> then
  decodes a second time. A target without \<open>%\<close> comes back as it was
  (\<open>decodeURIComponent_without_percent\<close>), but in a target with an escape of its own the
  escape is decoded, and a target with a stray \<open>%\<close> makes the constructor throw.
\<close>

theorem permalink_is_decoded_twice:
  "generatePermalink ''https://viewer.example/index.html''
     (page_with ''https://example.org/metadata?q=%41'') =
     Some ''https://viewer.example/index.html?url=https%3A%2F%2Fexample.org%2Fmetadata%3Fq%3D%2541'' \<and>
   get (URLSearchParams (location_search
          ''https://viewer.example/index.html?url=https%3A%2F%2Fexample.org%2Fmetadata%3Fq%3D%2541''))
     ''url'' = Some ''https://example.org/metadata?q=%41'' \<and>
   fhir_url (snd (checkUrlParameters p (location_search
          ''https://viewer.example/index.html?url=https%3A%2F%2Fexample.org%2Fmetadata%3Fq%3D%2541'') s))
     = ''https://example.org/metadata?q=A'' \<and>
   generatePermalink ''https://viewer.example/index.html'' (page_with ''https://example.org/100%'') =
     Some ''https://viewer.example/index.html?url=https%3A%2F%2Fexample.org%2F100%25'' \<and>
   checkUrlParameters p (location_search
          ''https://viewer.example/index.html?url=https%3A%2F%2Fexample.org%2F100%25'') s
     = (Inl ''URI malformed'', s)"
proof -
  let ?link = "''https://viewer.example/index.html?url=https%3A%2F%2Fexample.org%2Fmetadata%3Fq%3D%2541''"
  let ?stray = "''https://viewer.example/index.html?url=https%3A%2F%2Fexample.org%2F100%25''"
  have link: "generatePermalink ''https://viewer.example/index.html''
      (page_with ''https://example.org/metadata?q=%41'') = Some ?link"
    by code_simp
  have once: "get (URLSearchParams (location_search ?link)) ''url'' =
      Some ''https://example.org/metadata?q=%41''"
    by code_simp
  have twice: "decodeURIComponent ''https://example.org/metadata?q=%41'' =
      Some ''https://example.org/metadata?q=A''"
    by code_simp
  have again: "fhir_url (snd (checkUrlParameters p (location_search ?link) s)) =
      ''https://example.org/metadata?q=A''"
    by (simp add: checkUrlParameters_decoded [OF once _ twice] fhir_url_loadCapabilityStatement)
  have link': "generatePermalink ''https://viewer.example/index.html''
      (page_with ''https://example.org/100%'') = Some ?stray"
    by code_simp
  have once': "get (URLSearchParams (location_search ?stray)) ''url'' =
      Some ''https://example.org/100%''"
    by code_simp
  have twice': "decodeURIComponent ''https://example.org/100%'' = None"
    by code_simp
  have throws: "checkUrlParameters p (location_search ?stray) s = (Inl ''URI malformed'', s)"
    by (rule checkUrlParameters_malformed [OF once' _ twice']) simp
  from link once again link' throws show ?thesis by blast
qed

end
